theory Spec2Isabelle
  imports Complex_Main
begin

section \<open>deej: the configuration manager and the serial line handler\<close>

text \<open>
  A shallow embedding of \<^verbatim>\<open>pkg/deej/config.go\<close> (the \<^verbatim>\<open>ConfigManager\<close>) and of
  \<^verbatim>\<open>SerialIO.handleLine\<close> with the package-level variables it drives.

  Conventions of the embedding:
  \<^item> A finite \<^verbatim>\<open>float32\<close> is the rational it denotes, and float32 arithmetic is the
    exact operation followed by \<open>f32\<close>, the rounding to the nearest float32 (ties to
    the even significand). The constant \<^verbatim>\<open>0.01\<close> is \<open>f32 (1 / 100)\<close>. The infinities and
    NaN are not values of the model.
  \<^item> Go's \<^verbatim>\<open>int\<close> is \<open>int\<close>: the index handled here stays between 0 and 1024
    (lemma \<open>switchLine_index_range\<close>), far from the 64-bit bounds.
  \<^item> A Go map is a partial function; a \<^verbatim>\<open>nil\<close> map is \<open>None\<close>. Reading a nil map
    finds nothing, its length is 0, writing to it panics.
  \<^item> \<^verbatim>\<open>cm.Config\<close> is a pointer that \<^verbatim>\<open>Load\<close> sets before anything reads it; the
    record holds the pointed-to value.
  \<^item> The mutex, the logger and the goroutines are left out: every function below runs
    from its lock to its unlock without interleaving, and a send on a consumer's
    channel completes (the consumer receives).
  \<^item> The operating system (opening the file), the YAML decoder and the order in which
    \<^verbatim>\<open>range\<close> walks a map are parameters of \<open>Load\<close>.
\<close>

subsection \<open>Data\<close>

record ConnectionInfo =
  SerialPort :: string
  BaudRate :: nat

record SliderMapping =
  Volume :: rat
  Muted :: bool
  Targets :: "string list"

record Config =
  SliderMappings :: "(string \<rightharpoonup> SliderMapping) option"
  InvertSliders :: bool
  ConnectionInfo :: ConnectionInfo
  NoiseReductionLevel :: string
  ConfigSaveInterval :: int

record ConfigManager =
  Config :: Config
  orderedSliderKeys :: "string list"
  configFilePath :: string
  configModified :: bool

record SliderMoveEvent =
  SliderID :: string
  PercentValue :: rat

datatype error =
    ErrConfigNotExist string
  | ErrOpenConfig
  | ErrDecode
  | ErrOpenForWriting
  | ErrEncode
  | ErrKeyNotFound string
  | ErrInvalidIndex int
  | ErrIndexOutOfRange int
  | ErrNoKeys

datatype panic = AssignToNilMap | SliceIndexOutOfRange

text \<open>A call of \<^verbatim>\<open>notifier.Notify(title, message)\<close>.\<close>

datatype notification = Notify string string

text \<open>\<^verbatim>\<open>SliderMapping{}\<close>, the zero value.\<close>

definition zeroSliderMapping :: SliderMapping where
  "zeroSliderMapping = \<lparr>Volume = 0, Muted = False, Targets = []\<rparr>"

text \<open>\<^verbatim>\<open>m[key]\<close> with the comma-ok form: a nil map holds nothing.\<close>

definition mapIndex :: "(string \<rightharpoonup> SliderMapping) option \<Rightarrow> string \<Rightarrow> SliderMapping option" where
  "mapIndex m key = (case m of None \<Rightarrow> None | Some f \<Rightarrow> f key)"

text \<open>\<^verbatim>\<open>len(m)\<close>.\<close>

definition mapLen :: "(string \<rightharpoonup> SliderMapping) option \<Rightarrow> nat" where
  "mapLen m = (case m of None \<Rightarrow> 0 | Some f \<Rightarrow> card (dom f))"

text \<open>\<^verbatim>\<open>m[key] = v\<close>: a panic on a nil map.\<close>

definition mapAssign ::
  "(string \<rightharpoonup> SliderMapping) option \<Rightarrow> string \<Rightarrow> SliderMapping \<Rightarrow>
   panic + (string \<rightharpoonup> SliderMapping) option" where
  "mapAssign m key v = (case m of None \<Rightarrow> Inl AssignToNilMap | Some f \<Rightarrow> Inr (Some (f(key \<mapsto> v))))"

subsection \<open>ConfigManager: Load and SaveConfig\<close>

text \<open>What \<^verbatim>\<open>os.Open(cm.configFilePath)\<close> finds: no such file, another failure, or the
  file with its content.\<close>

datatype 'f opened = NotExist | OpenFails | Opened 'f

text \<open>The \<^verbatim>\<open>Config\<close> that \<^verbatim>\<open>Load\<close> allocates before decoding into it.\<close>

definition defaultConfig :: Config where
  "defaultConfig =
     \<lparr>SliderMappings = None, InvertSliders = False,
      ConnectionInfo = \<lparr>SerialPort = ''COM4'', BaudRate = 9600\<rparr>,
      NoiseReductionLevel = [], ConfigSaveInterval = 60\<rparr>"

text \<open>
  \<open>Load file Decode rangeKeys cm\<close>. \<open>Decode known content target\<close> stands for
  \<^verbatim>\<open>decoder.KnownFields(known); decoder.Decode(target)\<close> of the YAML library: it returns
  what it left in the target and whether it reported an error. \<open>rangeKeys m\<close> is the
  order in which \<^verbatim>\<open>for key := range m\<close> visits the map. The result is the returned
  error, the manager afterwards and the notifications raised.
\<close>

definition Load ::
  "'f opened \<Rightarrow> (bool \<Rightarrow> 'f \<Rightarrow> Config \<Rightarrow> Config \<times> bool) \<Rightarrow>
   ((string \<rightharpoonup> SliderMapping) \<Rightarrow> string list) \<Rightarrow> ConfigManager \<Rightarrow>
   error option \<times> ConfigManager \<times> notification list" where
  "Load file Decode rangeKeys cm =
     (case file of
        NotExist \<Rightarrow>
          (Some (ErrConfigNotExist (configFilePath cm)), cm,
           [Notify ''Can't find configuration!''
              (configFilePath cm @ '' must be in the directory. Please re-launch'')])
      | OpenFails \<Rightarrow> (Some ErrOpenConfig, cm, [])
      | Opened content \<Rightarrow>
          (let cm1 = cm\<lparr>Config := defaultConfig\<rparr>;
               (decoded, failed) = Decode True content (Config cm1);
               cm2 = cm1\<lparr>Config := decoded\<rparr>
           in if failed then (Some ErrDecode, cm2, [])
              else (None,
                    cm2\<lparr>orderedSliderKeys :=
                          (case SliderMappings (Config cm2) of
                             None \<Rightarrow> []
                           | Some m \<Rightarrow> rangeKeys m)\<rparr>,
                    [])))"

text \<open>What the file system does to \<^verbatim>\<open>SaveConfig\<close>: \<^verbatim>\<open>os.Create\<close> fails, the encoder
  fails, or the file is written.\<close>

datatype written = CreateFails | EncodeFails | Written

definition SaveConfig :: "written \<Rightarrow> ConfigManager \<Rightarrow> error option \<times> ConfigManager" where
  "SaveConfig io cm =
     (case io of
        CreateFails \<Rightarrow> (Some ErrOpenForWriting, cm)
      | EncodeFails \<Rightarrow> (Some ErrEncode, cm)
      | Written \<Rightarrow> (None, cm\<lparr>configModified := False\<rparr>))"

subsection \<open>ConfigManager: queries and updates\<close>

definition getSliderMappingByKey :: "ConfigManager \<Rightarrow> string \<Rightarrow> SliderMapping \<times> error option" where
  "getSliderMappingByKey cm key =
     (case mapIndex (SliderMappings (Config cm)) key of
        None \<Rightarrow> (zeroSliderMapping, Some (ErrKeyNotFound key))
      | Some mapping \<Rightarrow> (mapping, None))"

definition getSliderMappingByIndex :: "ConfigManager \<Rightarrow> int \<Rightarrow> SliderMapping \<times> error option" where
  "getSliderMappingByIndex cm index =
     (if index < 0 \<or> index \<ge> int (length (orderedSliderKeys cm))
      then (zeroSliderMapping, Some (ErrInvalidIndex index))
      else (case mapIndex (SliderMappings (Config cm)) (orderedSliderKeys cm ! nat index) of
              None \<Rightarrow> (zeroSliderMapping, None)
            | Some mapping \<Rightarrow> (mapping, None)))"

definition getSliderMappingKeys :: "ConfigManager \<Rightarrow> string list \<times> error option" where
  "getSliderMappingKeys cm =
     (if length (orderedSliderKeys cm) = 0 then ([], Some ErrNoKeys)
      else (orderedSliderKeys cm, None))"

definition getSliderMappingCount :: "ConfigManager \<Rightarrow> int" where
  "getSliderMappingCount cm = int (mapLen (SliderMappings (Config cm)))"

definition getSliderMappingKeyByIndex :: "ConfigManager \<Rightarrow> int \<Rightarrow> string \<times> error option" where
  "getSliderMappingKeyByIndex cm index =
     (if index < 0 \<or> index \<ge> int (length (orderedSliderKeys cm))
      then ([], Some (ErrIndexOutOfRange index))
      else (orderedSliderKeys cm ! nat index, None))"

definition UpdateSliderMappingByKey ::
  "ConfigManager \<Rightarrow> string \<Rightarrow> SliderMapping \<Rightarrow> panic + ConfigManager" where
  "UpdateSliderMappingByKey cm key mapping =
     (case mapAssign (SliderMappings (Config cm)) key mapping of
        Inl p \<Rightarrow> Inl p
      | Inr m \<Rightarrow> Inr (cm\<lparr>Config := (Config cm)\<lparr>SliderMappings := m\<rparr>, configModified := True\<rparr>))"

definition UpdateSliderMappingByIndex ::
  "ConfigManager \<Rightarrow> int \<Rightarrow> SliderMapping \<Rightarrow> panic + ConfigManager" where
  "UpdateSliderMappingByIndex cm index mapping =
     (if index < 0 \<or> index \<ge> int (length (orderedSliderKeys cm)) then Inl SliceIndexOutOfRange
      else (case mapAssign (SliderMappings (Config cm)) (orderedSliderKeys cm ! nat index) mapping of
              Inl p \<Rightarrow> Inl p
            | Inr m \<Rightarrow> Inr (cm\<lparr>Config := (Config cm)\<lparr>SliderMappings := m\<rparr>, configModified := True\<rparr>)))"

subsection \<open>Arithmetic in float32\<close>

text \<open>The number of binary digits of a natural number.\<close>

fun bitLength :: "nat \<Rightarrow> nat" where
  "bitLength n = (if n = 0 then 0 else Suc (bitLength (n div 2)))"

declare bitLength.simps [simp del]

text \<open>
  The distance between neighbouring float32 values around \<open>x\<close>: \<open>2 ^ (e - 23)\<close> for
  \<open>2 ^ e \<le> \<bar>x\<bar> < 2 ^ (e + 1)\<close>, the significand having 24 binary digits, and
  \<open>2 ^ - 149\<close> below \<open>2 ^ - 126\<close>, where the subnormal values lie. The powers are
  written over the common denominator \<open>2 ^ 149\<close>.
\<close>

definition quantum :: "rat \<Rightarrow> rat" where
  "quantum x = 2 ^ (bitLength (nat \<lfloor>\<bar>x\<bar> * 2 ^ 149\<rfloor>) - 24) / 2 ^ 149"

text \<open>The nearest integer, the even one of two that are equally near.\<close>

definition roundEven :: "rat \<Rightarrow> int" where
  "roundEven y =
     (if y - of_int \<lfloor>y\<rfloor> < 1 / 2 then \<lfloor>y\<rfloor>
      else if y - of_int \<lfloor>y\<rfloor> > 1 / 2 then \<lfloor>y\<rfloor> + 1
      else if even \<lfloor>y\<rfloor> then \<lfloor>y\<rfloor> else \<lfloor>y\<rfloor> + 1)"

text \<open>
  The float32 nearest to \<open>x\<close>, as IEEE 754 rounds the exact result of an operation
  (round to nearest, ties to even). Beyond the largest finite float32 the hardware gives
  an infinity; adding or subtracting 0.01 never takes a finite float32 there.
\<close>

definition f32 :: "rat \<Rightarrow> rat" where
  "f32 x = of_int (roundEven (x / quantum x)) * quantum x"

subsection \<open>SerialIO: the package-level variables and handleLine\<close>

record globals =
  currentSliderIndex :: int
  currentSliderName :: string
  wantedValue :: rat
  isButtonHeld :: bool
  needToUpdate :: bool

text \<open>The variables as the package initialises them.\<close>

definition initialGlobals :: globals where
  "initialGlobals =
     \<lparr>currentSliderIndex = 0, currentSliderName = [], wantedValue = 0,
      isButtonHeld = False, needToUpdate = False\<rparr>"

text \<open>
  \<^verbatim>\<open>expectedLinePattern.MatchString\<close> for the pattern \<^verbatim>\<open>^[lrud]\n$\<close>: Go's regexp has no
  multi-line mode here, so the whole line is one of the four letters and a line feed.
\<close>

definition expectedLinePattern :: "string \<Rightarrow> bool" where
  "expectedLinePattern line =
     (case line of
        [c, n] \<Rightarrow> c \<in> set ''lrud'' \<and> n = CHR 0x0A
      | _ \<Rightarrow> False)"

text \<open>\<^verbatim>\<open>strings.TrimSuffix\<close>.\<close>

definition TrimSuffix :: "string \<Rightarrow> string \<Rightarrow> string" where
  "TrimSuffix s suffix =
     (if length suffix \<le> length s \<and> drop (length s - length suffix) s = suffix
      then take (length s - length suffix) s else s)"

text \<open>The \<^verbatim>\<open>switch line\<close> of \<^verbatim>\<open>handleLine\<close>: it reads the manager and writes the variables.
  Under \<^verbatim>\<open>d\<close> the keys are fetched for the log only.\<close>

definition switchLine :: "string \<Rightarrow> globals \<Rightarrow> ConfigManager \<Rightarrow> globals" where
  "switchLine line g cm =
     (if line = ''l'' then
        (if isButtonHeld g then
           (let i1 = currentSliderIndex g - 1;
                i2 = (if i1 < 0 then 0 else i1)
            in g\<lparr>currentSliderIndex := i2,
                 wantedValue := Volume (fst (getSliderMappingByIndex cm i2)),
                 currentSliderName := fst (getSliderMappingKeyByIndex cm i2)\<rparr>)
         else
           (let w = f32 (Volume (fst (getSliderMappingByKey cm (currentSliderName g))) - f32 (1 / 100))
            in g\<lparr>wantedValue := (if w < 0 then 0 else w), needToUpdate := True\<rparr>))
      else if line = ''r'' then
        (if isButtonHeld g then
           (let i1 = currentSliderIndex g + 1;
                i2 = (if i1 > 1024 then 1024 else i1);
                sliderMappingCount = getSliderMappingCount cm;
                i3 = (if i2 > sliderMappingCount then sliderMappingCount else i2)
            in g\<lparr>currentSliderIndex := i3,
                 wantedValue := Volume (fst (getSliderMappingByIndex cm i3)),
                 currentSliderName := fst (getSliderMappingKeyByIndex cm i3)\<rparr>)
         else
           (let w = f32 (Volume (fst (getSliderMappingByKey cm (currentSliderName g))) + f32 (1 / 100))
            in g\<lparr>wantedValue := (if w > 1 then 1 else w), needToUpdate := True\<rparr>))
      else if line = ''d'' then
        g\<lparr>isButtonHeld := True, needToUpdate := False\<rparr>
      else if line = ''u'' then
        g\<lparr>isButtonHeld := False, needToUpdate := False,
          currentSliderName := fst (getSliderMappingKeyByIndex cm (currentSliderIndex g))\<rparr>
      else g)"

text \<open>The events \<^verbatim>\<open>handleLine\<close> collects after the switch.\<close>

definition moveEvents :: "globals \<Rightarrow> ConfigManager \<Rightarrow> SliderMoveEvent list" where
  "moveEvents g cm =
     (if needToUpdate g \<and>
         wantedValue g \<noteq> Volume (fst (getSliderMappingByIndex cm (currentSliderIndex g)))
      then [\<lparr>SliderID = currentSliderName g, PercentValue = wantedValue g\<rparr>]
      else [])"

text \<open>
  What \<^verbatim>\<open>handleLine\<close> does to the outside, in order: an event sent on a consumer's
  channel (the consumer is its position in \<^verbatim>\<open>sliderMoveConsumers\<close>), and a call of
  \<^verbatim>\<open>UpdateSliderMappingByKey\<close> that returned.
\<close>

datatype action = Sent nat SliderMoveEvent | Updated string SliderMapping

text \<open>The inner loop, \<^verbatim>\<open>for _, moveEvent := range moveEvents\<close>, for one consumer.\<close>

fun deliverEvents ::
  "nat \<Rightarrow> SliderMoveEvent list \<Rightarrow> ConfigManager \<Rightarrow> action list \<Rightarrow>
   ConfigManager \<times> action list \<times> panic option" where
  "deliverEvents consumer [] cm tr = (cm, tr, None)"
| "deliverEvents consumer (moveEvent # rest) cm tr =
     (let tr1 = tr @ [Sent consumer moveEvent];
          sm = (fst (getSliderMappingByKey cm (SliderID moveEvent)))\<lparr>Volume := PercentValue moveEvent\<rparr>
      in case UpdateSliderMappingByKey cm (SliderID moveEvent) sm of
           Inl p \<Rightarrow> (cm, tr1, Some p)
         | Inr cm1 \<Rightarrow> deliverEvents consumer rest cm1 (tr1 @ [Updated (SliderID moveEvent) sm]))"

text \<open>The outer loop, \<^verbatim>\<open>for _, consumer := range sio.sliderMoveConsumers\<close>.\<close>

fun deliver ::
  "nat list \<Rightarrow> SliderMoveEvent list \<Rightarrow> ConfigManager \<Rightarrow> action list \<Rightarrow>
   ConfigManager \<times> action list \<times> panic option" where
  "deliver [] events cm tr = (cm, tr, None)"
| "deliver (consumer # consumers) events cm tr =
     (case deliverEvents consumer events cm tr of
        (cm1, tr1, Some p) \<Rightarrow> (cm1, tr1, Some p)
      | (cm1, tr1, None) \<Rightarrow> deliver consumers events cm1 tr1)"

text \<open>
  \<open>handleLine consumers line (g, cm)\<close>: the variables and the manager afterwards, the
  actions in order, and the panic that ended the call, if any.
\<close>

definition handleLine ::
  "nat list \<Rightarrow> string \<Rightarrow> globals \<times> ConfigManager \<Rightarrow>
   globals \<times> ConfigManager \<times> action list \<times> panic option" where
  "handleLine consumers line s =
     (case s of (g, cm) \<Rightarrow>
        if \<not> expectedLinePattern line then (g, cm, [], None)
        else
          (let g1 = switchLine (TrimSuffix line [CHR 0x0A]) g cm;
               events = moveEvents g1 cm
           in if length events > 0
              then (case deliver consumers events cm [] of (cm1, tr, p) \<Rightarrow> (g1, cm1, tr, p))
              else (g1, cm, [], None)))"

text \<open>The dispatch loop of \<^verbatim>\<open>Start\<close> on the lines it receives, until one panics.\<close>

fun handleLines ::
  "nat list \<Rightarrow> string list \<Rightarrow> globals \<times> ConfigManager \<Rightarrow>
   globals \<times> ConfigManager \<times> action list \<times> panic option" where
  "handleLines consumers [] s = (fst s, snd s, [], None)"
| "handleLines consumers (line # rest) s =
     (case handleLine consumers line s of
        (g1, cm1, tr1, Some p) \<Rightarrow> (g1, cm1, tr1, Some p)
      | (g1, cm1, tr1, None) \<Rightarrow>
          (case handleLines consumers rest (g1, cm1) of
             (g2, cm2, tr2, p) \<Rightarrow> (g2, cm2, tr1 @ tr2, p)))"

subsection \<open>Properties stated about the manager and the line handler\<close>

text \<open>The key sequence and the mapping hold the same names.\<close>

definition keySetsAgree :: "ConfigManager \<Rightarrow> bool" where
  "keySetsAgree cm =
     (set (orderedSliderKeys cm) =
        (case SliderMappings (Config cm) of None \<Rightarrow> {} | Some m \<Rightarrow> dom m))"

text \<open>Every stored volume, as \<^verbatim>\<open>getSliderMappingByKey\<close> reads it, is within 0 and 1.\<close>

definition volumesInRange :: "ConfigManager \<Rightarrow> bool" where
  "volumesInRange cm =
     (\<forall>key. 0 \<le> Volume (fst (getSliderMappingByKey cm key)) \<and>
            Volume (fst (getSliderMappingByKey cm key)) \<le> 1)"

text \<open>The events sent to one consumer, in order.\<close>

fun sentTo :: "nat \<Rightarrow> action list \<Rightarrow> SliderMoveEvent list" where
  "sentTo k [] = []"
| "sentTo k (Sent j e # tr) = (if j = k then e # sentTo k tr else sentTo k tr)"
| "sentTo k (Updated key sm # tr) = sentTo k tr"

text \<open>
  What the claims take from the YAML library, as a property of the \<open>Decode\<close> given to
  \<open>Load\<close>: with \<^verbatim>\<open>KnownFields(true)\<close> it reports an error on every content that \<open>bad\<close>
  holds of (content that is not YAML; content with a key that is no field of the target).
\<close>

definition rejects :: "(bool \<Rightarrow> 'f \<Rightarrow> Config \<Rightarrow> Config \<times> bool) \<Rightarrow> ('f \<Rightarrow> bool) \<Rightarrow> bool" where
  "rejects Decode bad = (\<forall>content target. bad content \<longrightarrow> snd (Decode True content target))"

text \<open>The top-level keys of the file, from the \<^verbatim>\<open>yaml\<close> tags of \<^verbatim>\<open>Config\<close>.\<close>

definition topLevelKeys :: "string list" where
  "topLevelKeys =
     [''slider_mappings'', ''invert_sliders'', ''connection_info'', ''noise_reduction_level'',
      ''config_save_interval'']"

subsection \<open>Concrete configurations\<close>

text \<open>The three sliders of the start-up scenario, each at volume 0.5.\<close>

definition masterMapping :: SliderMapping where
  "masterMapping = \<lparr>Volume = 1 / 2, Muted = True, Targets = [''master'']\<rparr>"

definition gameMapping :: SliderMapping where
  "gameMapping = \<lparr>Volume = 1 / 2, Muted = False, Targets = [''game.exe'', ''steam.exe'']\<rparr>"

definition chatMapping :: SliderMapping where
  "chatMapping = \<lparr>Volume = 1 / 2, Muted = False, Targets = [''discord.exe'']\<rparr>"

definition threeSliders :: ConfigManager where
  "threeSliders =
     \<lparr>Config = defaultConfig\<lparr>SliderMappings :=
        Some [''master'' \<mapsto> masterMapping, ''game'' \<mapsto> gameMapping, ''chat'' \<mapsto> chatMapping]\<rparr>,
      orderedSliderKeys = [''master'', ''game'', ''chat''],
      configFilePath = ''config.yaml'', configModified = False\<rparr>"

text \<open>The same sliders with \<^verbatim>\<open>master\<close> stored at 1.5, as a file with \<^verbatim>\<open>volume: 1.5\<close> loads.\<close>

definition loudSliders :: ConfigManager where
  "loudSliders =
     threeSliders\<lparr>Config := (Config threeSliders)\<lparr>SliderMappings :=
        Some [''master'' \<mapsto> masterMapping\<lparr>Volume := 3 / 2\<rparr>, ''game'' \<mapsto> gameMapping,
              ''chat'' \<mapsto> chatMapping]\<rparr>\<rparr>"

text \<open>The variables once the button has been pressed and released on index 0.\<close>

definition onMaster :: globals where
  "onMaster = initialGlobals\<lparr>currentSliderName := ''master''\<rparr>"

text \<open>A configuration of 1025 sliders, named by 0 to 1024 letters.\<close>

definition manyNames :: "string list" where
  "manyNames = map (\<lambda>n. replicate n (CHR ''s'')) [0..<1025]"

definition manySliders :: ConfigManager where
  "manySliders =
     \<lparr>Config = defaultConfig\<lparr>SliderMappings :=
        Some (map_of (map (\<lambda>key. (key, zeroSliderMapping)) manyNames))\<rparr>,
      orderedSliderKeys = manyNames,
      configFilePath = ''config.yaml'', configModified = False\<rparr>"

subsection \<open>Rounding to float32\<close>

lemma bitLength_eq: "2 ^ m \<le> n \<Longrightarrow> n < 2 ^ Suc m \<Longrightarrow> bitLength n = Suc m"
proof (induction m arbitrary: n)
  case 0
  then have "n = 1" by simp
  then show ?case by (simp add: bitLength.simps)
next
  case (Suc m)
  from Suc.prems have "2 ^ m \<le> n div 2" "n div 2 < 2 ^ Suc m" by auto
  then have "bitLength (n div 2) = Suc m" by (rule Suc.IH)
  moreover from Suc.prems have "n \<noteq> 0" by auto
  ultimately show ?case by (subst bitLength.simps) simp
qed

lemma bitLength_le: "n < 2 ^ w \<Longrightarrow> bitLength n \<le> w"
proof (induction w arbitrary: n)
  case 0
  then show ?case by (simp add: bitLength.simps)
next
  case (Suc w)
  show ?case
  proof (cases "n = 0")
    case True
    then show ?thesis by (simp add: bitLength.simps)
  next
    case False
    from Suc.prems have "n div 2 < 2 ^ w" by auto
    then have "bitLength (n div 2) \<le> w" by (rule Suc.IH)
    with False show ?thesis by (subst bitLength.simps) simp
  qed
qed

lemma quantum_pos: "0 < quantum x"
  by (simp add: quantum_def)

text \<open>Between \<open>2 ^ 23\<close> and \<open>2 ^ 24\<close> quanta, the quantum is that one.\<close>

lemma quantum_binade:
  assumes "2 ^ 23 \<le> \<bar>x\<bar> * 2 ^ j" and "\<bar>x\<bar> * 2 ^ j < 2 ^ 24" and "j \<le> 149"
  shows "quantum x = 1 / 2 ^ j"
proof -
  define k where "k = 149 - j"
  define y where "y = \<bar>x\<bar> * 2 ^ 149"
  have j: "149 = j + k" using assms(3) by (simp add: k_def)
  have y: "y = (\<bar>x\<bar> * 2 ^ j) * 2 ^ k"
    unfolding y_def j by (simp only: power_add mult.assoc)
  have "(2::rat) ^ (23 + k) = 2 ^ 23 * 2 ^ k"
    by (simp only: power_add)
  also have "\<dots> \<le> (\<bar>x\<bar> * 2 ^ j) * 2 ^ k"
    using assms(1) by (rule mult_right_mono) simp
  finally have lo: "(2::rat) ^ (23 + k) \<le> y"
    by (simp only: y)
  have "(\<bar>x\<bar> * 2 ^ j) * 2 ^ k < 2 ^ 24 * (2::rat) ^ k"
    using assms(2) by (rule mult_strict_right_mono) simp
  also have "\<dots> = 2 ^ (24 + k)"
    by (simp only: power_add)
  finally have hi: "y < (2::rat) ^ (24 + k)"
    by (simp only: y)
  have "rat_of_int (2 ^ (23 + k)) \<le> y"
    using lo by (simp only: of_int_power of_int_numeral)
  then have "(2::int) ^ (23 + k) \<le> \<lfloor>y\<rfloor>"
    by (simp only: le_floor_iff)
  then have nlo: "2 ^ (23 + k) \<le> nat \<lfloor>y\<rfloor>"
    by simp
  have "y < rat_of_int (2 ^ (24 + k))"
    using hi by (simp only: of_int_power of_int_numeral)
  then have "\<lfloor>y\<rfloor> < (2::int) ^ (24 + k)"
    by (simp only: floor_less_iff)
  moreover have "24 + k = Suc (23 + k)" by simp
  ultimately have "\<lfloor>y\<rfloor> < (2::int) ^ Suc (23 + k)"
    by (simp only:)
  then have nhi: "nat \<lfloor>y\<rfloor> < 2 ^ Suc (23 + k)"
    by simp
  from bitLength_eq [OF nlo nhi] have "bitLength (nat \<lfloor>y\<rfloor>) - 24 = k"
    by simp
  moreover have "quantum x = 2 ^ (bitLength (nat \<lfloor>y\<rfloor>) - 24) / 2 ^ 149"
    unfolding quantum_def y_def by (rule refl)
  ultimately have "quantum x = 2 ^ k / 2 ^ 149"
    by (simp only:)
  moreover have "(2::rat) ^ 149 = 2 ^ j * 2 ^ k"
    by (subst j) (rule power_add)
  ultimately have "quantum x = 2 ^ k / (2 ^ j * 2 ^ k)"
    by (simp only:)
  then show ?thesis
    by simp
qed

lemma f32_binade:
  assumes "2 ^ 23 \<le> \<bar>x\<bar> * 2 ^ j" and "\<bar>x\<bar> * 2 ^ j < 2 ^ 24" and "j \<le> 149"
  shows "f32 x = of_int (roundEven (x * 2 ^ j)) / 2 ^ j"
  by (simp add: f32_def quantum_binade [OF assms])

lemma floor_rat_numeral [simp]:
  "\<lfloor>numeral a / numeral b :: rat\<rfloor> = numeral a div numeral b"
  using floor_divide_of_int_eq [of "numeral a" "numeral b", where ?'a = rat] by simp

lemma roundEven_le: "y \<le> rat_of_int N \<Longrightarrow> roundEven y \<le> N"
proof -
  assume le: "y \<le> rat_of_int N"
  then have fl: "\<lfloor>y\<rfloor> \<le> N" by (simp add: floor_le_iff)
  show ?thesis
  proof (cases "\<lfloor>y\<rfloor> = N")
    case True
    with le have "y - rat_of_int \<lfloor>y\<rfloor> \<le> 0" by simp
    then show ?thesis using True by (simp add: roundEven_def)
  next
    case False
    with fl have "\<lfloor>y\<rfloor> + 1 \<le> N" by simp
    with fl show ?thesis by (simp add: roundEven_def)
  qed
qed

lemma roundEven_ge: "rat_of_int N \<le> y \<Longrightarrow> N \<le> roundEven y"
proof -
  assume "rat_of_int N \<le> y"
  then have "N \<le> \<lfloor>y\<rfloor>" by (simp add: le_floor_iff)
  then show ?thesis by (simp add: roundEven_def)
qed

lemma f32_nonneg: "0 \<le> x \<Longrightarrow> 0 \<le> f32 x"
proof -
  assume "0 \<le> x"
  then have "rat_of_int 0 \<le> x / quantum x"
    using quantum_pos [of x] by simp
  then have "0 \<le> roundEven (x / quantum x)" by (rule roundEven_ge)
  then show ?thesis
    using quantum_pos [of x] by (simp add: f32_def)
qed

lemma f32_nonpos: "x \<le> 0 \<Longrightarrow> f32 x \<le> 0"
proof -
  assume "x \<le> 0"
  then have "x / quantum x \<le> rat_of_int 0"
    using quantum_pos [of x] by (simp add: divide_le_0_iff)
  then have "roundEven (x / quantum x) \<le> 0" by (rule roundEven_le)
  then show ?thesis
    using quantum_pos [of x] by (simp add: f32_def mult_le_0_iff)
qed

text \<open>1 is a float32: nothing at or below it rounds above it.\<close>

lemma f32_le_one: "x \<le> 1 \<Longrightarrow> f32 x \<le> 1"
proof (cases "x \<le> 0")
  case True
  then have "f32 x \<le> 0" by (rule f32_nonpos)
  then show ?thesis by simp
next
  case False
  assume x1: "x \<le> 1"
  from False have x0: "0 < x" by simp
  define n where "n = nat \<lfloor>\<bar>x\<bar> * 2 ^ 149\<rfloor>"
  define m where "m = bitLength n - 24"
  have "\<bar>x\<bar> * 2 ^ 149 \<le> 1 * 2 ^ 149"
    using x0 x1 by (intro mult_right_mono) simp_all
  then have "\<lfloor>\<bar>x\<bar> * 2 ^ 149\<rfloor> \<le> \<lfloor>(2::rat) ^ 149\<rfloor>"
    by (intro floor_mono) simp
  also have "\<lfloor>(2::rat) ^ 149\<rfloor> = 2 ^ 149"
    by (metis floor_of_int of_int_numeral of_int_power)
  finally have "n \<le> 2 ^ 149"
    unfolding n_def by (metis nat_le_iff of_nat_numeral of_nat_power)
  also have "\<dots> < (2::nat) ^ 150" by (rule power_strict_increasing) simp_all
  finally have "bitLength n \<le> 150" by (rule bitLength_le)
  then have m: "m \<le> 149" by (simp add: m_def)
  define k where "k = 149 - m"
  have "149 = k + m" using m by (simp add: k_def)
  then have "(2::rat) ^ 149 = 2 ^ k * 2 ^ m"
    by (metis power_add)
  moreover have "quantum x = 2 ^ m / 2 ^ 149"
    unfolding quantum_def m_def n_def by (rule refl)
  ultimately have "quantum x = 2 ^ m / (2 ^ k * 2 ^ m)" by (simp only:)
  then have q: "quantum x = 1 / 2 ^ k" by simp
  have "x / quantum x = x * 2 ^ k" by (simp add: q)
  also have "\<dots> \<le> 1 * 2 ^ k"
    using x1 by (intro mult_right_mono) simp_all
  also have "\<dots> = rat_of_int (2 ^ k)" by simp
  finally have "roundEven (x / quantum x) \<le> 2 ^ k" by (rule roundEven_le)
  then have "rat_of_int (roundEven (x / quantum x)) \<le> 2 ^ k"
    by (metis of_int_le_iff of_int_numeral of_int_power)
  then have "f32 x \<le> 2 ^ k * (1 / 2 ^ k)"
    unfolding f32_def q by (intro mult_right_mono) simp_all
  then show ?thesis by simp
qed

lemma f32_zero [simp]: "f32 0 = 0"
  by (simp add: f32_def roundEven_def)

text \<open>
  Sums that exact arithmetic would give differently: 0.2 + 0.01 is a little more than
  0.21 and 0.96 + 0.01 a little less than 0.97; four steps up from 0.96 end just below
  1, so that a fifth step still moves.
\<close>

lemma f32_sums:
  "f32 (f32 (1 / 5) + f32 (1 / 100)) = 7046431 / 33554432"
  "f32 (f32 (96 / 100) + f32 (1 / 100)) = 16273899 / 16777216"
  "f32 (16273899 / 16777216 + f32 (1 / 100)) = 16441671 / 16777216"
  "f32 (16441671 / 16777216 + f32 (1 / 100)) = 16609443 / 16777216"
  "f32 (16609443 / 16777216 + f32 (1 / 100)) = 16777215 / 16777216"
  "f32 (16777215 / 16777216 + f32 (1 / 100)) = 4236247 / 4194304"
  by (simp_all add: f32_binade [where j = 30] f32_binade [where j = 26] f32_binade [where j = 24]
      f32_binade [where j = 23] roundEven_def)

text \<open>The values the scenarios below meet.\<close>

lemma f32_values:
  "f32 (1 / 100) = 5368709 / 536870912"
  "f32 (5368709 / 536870912) = 5368709 / 536870912"
  "f32 (- (5368709 / 536870912)) = - (5368709 / 536870912)"
  "f32 (273804165 / 536870912) = 2139095 / 4194304"
  "f32 (51 / 100) = 2139095 / 4194304"
  "f32 (263066747 / 536870912) = 2055209 / 4194304"
  "f32 (49 / 100) = 2055209 / 4194304"
  "f32 (799937659 / 536870912) = 6249513 / 4194304"
  "f32 (149 / 100) = 6249513 / 4194304"
  by (simp_all add: f32_binade [where j = 30] f32_binade [where j = 24] f32_binade [where j = 25]
      f32_binade [where j = 23] roundEven_def)

subsection \<open>Lines and the delivery loop\<close>

lemma expectedLinePattern_iff:
  "expectedLinePattern line \<longleftrightarrow>
     line = [CHR ''l'', CHR 0x0A] \<or> line = [CHR ''r'', CHR 0x0A] \<or>
     line = [CHR ''u'', CHR 0x0A] \<or> line = [CHR ''d'', CHR 0x0A]"
  by (auto simp: expectedLinePattern_def split: list.splits)

lemma TrimSuffix_token [simp]: "TrimSuffix [c, CHR 0x0A] [CHR 0x0A] = [c]"
  by (simp add: TrimSuffix_def)

lemma handleLine_token:
  assumes "c \<in> set ''lrud''"
  shows "handleLine consumers [c, CHR 0x0A] (g, cm) =
     (if moveEvents (switchLine [c] g cm) cm = [] then (switchLine [c] g cm, cm, [], None)
      else (case deliver consumers (moveEvents (switchLine [c] g cm) cm) cm [] of
              (cm1, tr, p) \<Rightarrow> (switchLine [c] g cm, cm1, tr, p)))"
  using assms by (auto simp: handleLine_def expectedLinePattern_def Let_def)

lemma getSliderMappingByKey_update:
  "UpdateSliderMappingByKey cm key sm = Inr cm1 \<Longrightarrow>
   getSliderMappingByKey cm1 k = (if k = key then (sm, None) else getSliderMappingByKey cm k)"
  by (auto simp: UpdateSliderMappingByKey_def getSliderMappingByKey_def mapAssign_def mapIndex_def
      split: option.splits sum.splits if_splits)

lemma UpdateSliderMappingByKey_nil:
  "SliderMappings (Config cm) = None \<Longrightarrow> UpdateSliderMappingByKey cm key sm = Inl AssignToNilMap"
  by (simp add: UpdateSliderMappingByKey_def mapAssign_def)

lemma UpdateSliderMappingByKey_Some:
  "SliderMappings (Config cm) = Some m \<Longrightarrow>
   UpdateSliderMappingByKey cm key sm =
     Inr (cm\<lparr>Config := (Config cm)\<lparr>SliderMappings := Some (m(key \<mapsto> sm))\<rparr>, configModified := True\<rparr>)"
  by (simp add: UpdateSliderMappingByKey_def mapAssign_def)

lemma UpdateSliderMappingByKey_twice:
  "UpdateSliderMappingByKey cm key sm = Inr cm1 \<Longrightarrow> UpdateSliderMappingByKey cm1 key sm = Inr cm1"
  by (auto simp: UpdateSliderMappingByKey_def mapAssign_def split: option.splits sum.splits)

lemma deliver_nil_map:
  "SliderMappings (Config cm) = None \<Longrightarrow>
   deliver (c # cs) [e] cm tr = (cm, tr @ [Sent c e], Some AssignToNilMap)"
  by (simp add: UpdateSliderMappingByKey_nil)

text \<open>With a mapping to write to, every consumer is sent the event and each send is
  followed by the same write-back.\<close>

lemma deliver_written:
  assumes "UpdateSliderMappingByKey cm (SliderID e) sm = Inr cm1"
    and "sm = (fst (getSliderMappingByKey cm (SliderID e)))\<lparr>Volume := PercentValue e\<rparr>"
  shows "deliver (c # cs) [e] cm tr =
     (cm1, tr @ concat (map (\<lambda>c. [Sent c e, Updated (SliderID e) sm]) (c # cs)), None)"
proof -
  have again: "deliver cs [e] cm1 tr' =
      (cm1, tr' @ concat (map (\<lambda>c. [Sent c e, Updated (SliderID e) sm]) cs), None)" for tr'
  proof (induction cs arbitrary: tr')
    case Nil
    show ?case by simp
  next
    case (Cons d ds)
    have same: "(fst (getSliderMappingByKey cm1 (SliderID e)))\<lparr>Volume := PercentValue e\<rparr> = sm"
      using getSliderMappingByKey_update [OF assms(1), of "SliderID e"] assms(2) by simp
    show ?case
      by (simp add: same UpdateSliderMappingByKey_twice [OF assms(1)] Cons.IH)
  qed
  show ?thesis
    using assms by (simp add: again)
qed

subsection \<open>The switch, case by case\<close>

lemma switchLine_l_volume:
  "\<not> isButtonHeld g \<Longrightarrow>
   switchLine ''l'' g cm =
     g\<lparr>wantedValue :=
         max 0 (f32 (Volume (fst (getSliderMappingByKey cm (currentSliderName g))) - f32 (1 / 100))),
       needToUpdate := True\<rparr>"
  by (simp add: switchLine_def Let_def max_def)

lemma switchLine_r_volume:
  "\<not> isButtonHeld g \<Longrightarrow>
   switchLine ''r'' g cm =
     g\<lparr>wantedValue :=
         min 1 (f32 (Volume (fst (getSliderMappingByKey cm (currentSliderName g))) + f32 (1 / 100))),
       needToUpdate := True\<rparr>"
  by (simp add: switchLine_def Let_def min_def)

lemma switchLine_l_held:
  "isButtonHeld g \<Longrightarrow>
   switchLine ''l'' g cm =
     g\<lparr>currentSliderIndex := max 0 (currentSliderIndex g - 1),
       wantedValue := Volume (fst (getSliderMappingByIndex cm (max 0 (currentSliderIndex g - 1)))),
       currentSliderName := fst (getSliderMappingKeyByIndex cm (max 0 (currentSliderIndex g - 1)))\<rparr>"
  by (simp add: switchLine_def Let_def max_def)

lemma switchLine_r_held:
  "isButtonHeld g \<Longrightarrow>
   switchLine ''r'' g cm =
     g\<lparr>currentSliderIndex := min (min (currentSliderIndex g + 1) 1024) (getSliderMappingCount cm),
       wantedValue := Volume (fst (getSliderMappingByIndex cm
          (min (min (currentSliderIndex g + 1) 1024) (getSliderMappingCount cm)))),
       currentSliderName := fst (getSliderMappingKeyByIndex cm
          (min (min (currentSliderIndex g + 1) 1024) (getSliderMappingCount cm)))\<rparr>"
  by (simp add: switchLine_def Let_def min_def)

lemma switchLine_d:
  "switchLine ''d'' g cm = g\<lparr>isButtonHeld := True, needToUpdate := False\<rparr>"
  by (simp add: switchLine_def)

lemma switchLine_u:
  "switchLine ''u'' g cm =
     g\<lparr>isButtonHeld := False, needToUpdate := False,
       currentSliderName := fst (getSliderMappingKeyByIndex cm (currentSliderIndex g))\<rparr>"
  by (simp add: switchLine_def)

text \<open>The index never leaves 0..1024 once it is there.\<close>

lemma switchLine_index_range:
  assumes "0 \<le> currentSliderIndex g" and "currentSliderIndex g \<le> 1024"
  shows "0 \<le> currentSliderIndex (switchLine line g cm) \<and> currentSliderIndex (switchLine line g cm) \<le> 1024"
  using assms by (auto simp: switchLine_def Let_def getSliderMappingCount_def)

subsection \<open>What one token can do\<close>

text \<open>What a delivery of one event can have done.\<close>

lemma deliver_single_cases:
  assumes "deliver consumers [e] cm [] = (cm1, tr, p)"
    and "sm = (fst (getSliderMappingByKey cm (SliderID e)))\<lparr>Volume := PercentValue e\<rparr>"
  shows "(cm1 = cm \<or> UpdateSliderMappingByKey cm (SliderID e) sm = Inr cm1) \<and>
         (\<forall>x \<in> set tr. x = Updated (SliderID e) sm \<or> (\<exists>c. x = Sent c e))"
proof (cases consumers)
  case Nil
  with assms show ?thesis by simp
next
  case (Cons c cs)
  show ?thesis
  proof (cases "SliderMappings (Config cm)")
    case None
    from deliver_nil_map [OF None, of c cs e "[]"] assms(1) Cons show ?thesis by auto
  next
    case (Some m)
    from UpdateSliderMappingByKey_Some [OF Some, of "SliderID e" sm]
    obtain cm2 where up: "UpdateSliderMappingByKey cm (SliderID e) sm = Inr cm2" by blast
    from deliver_written [OF up assms(2), of c cs "[]"] assms(1) Cons up show ?thesis by auto
  qed
qed

lemma moveEvents_cases:
  "moveEvents g cm = [] \<or> moveEvents g cm = [\<lparr>SliderID = currentSliderName g, PercentValue = wantedValue g\<rparr>]"
  by (simp add: moveEvents_def)

lemma volumesInRange_update:
  assumes "volumesInRange cm" and "UpdateSliderMappingByKey cm key sm = Inr cm1"
    and "0 \<le> Volume sm" and "Volume sm \<le> 1"
  shows "volumesInRange cm1"
  using assms by (simp add: volumesInRange_def getSliderMappingByKey_update)

text \<open>What one token can have done, whatever the mode.\<close>

lemma handleLine_token_cases:
  assumes "c \<in> set ''lrud''" and "handleLine consumers [c, CHR 0x0A] (g, cm) = (g1, cm1, tr, p)"
    and "sm = (fst (getSliderMappingByKey cm (currentSliderName g1)))\<lparr>Volume := wantedValue g1\<rparr>"
    and "e = \<lparr>SliderID = currentSliderName g1, PercentValue = wantedValue g1\<rparr>"
  shows "g1 = switchLine [c] g cm \<and>
         (cm1 = cm \<or> UpdateSliderMappingByKey cm (currentSliderName g1) sm = Inr cm1) \<and>
         (\<forall>x \<in> set tr. x = Updated (currentSliderName g1) sm \<or> (\<exists>k. x = Sent k e))"
proof -
  have g1: "g1 = switchLine [c] g cm"
    using assms(1,2) by (auto simp: handleLine_token split: if_splits prod.splits)
  show ?thesis
  proof (cases "moveEvents g1 cm = []")
    case True
    with assms(1,2) g1 show ?thesis by (auto simp: handleLine_token)
  next
    case False
    with moveEvents_cases [of g1 cm] assms(4) have ev: "moveEvents g1 cm = [e]" by simp
    with assms(1,2) g1 have "deliver consumers [e] cm [] = (cm1, tr, p)"
      by (auto simp: handleLine_token split: prod.splits)
    from deliver_single_cases [OF this, of sm] assms(3,4) g1 show ?thesis by simp
  qed
qed

lemma handleLine_volume_step:
  assumes "volumesInRange cm" and "\<not> isButtonHeld g"
    and "line = [CHR ''l'', CHR 0x0A] \<or> line = [CHR ''r'', CHR 0x0A]"
    and "handleLine consumers line (g, cm) = (g1, cm1, tr, p)"
  shows "volumesInRange cm1 \<and> \<not> isButtonHeld g1 \<and> 0 \<le> wantedValue g1 \<and> wantedValue g1 \<le> 1 \<and>
         (\<forall>k e. Sent k e \<in> set tr \<longrightarrow> 0 \<le> PercentValue e \<and> PercentValue e \<le> 1)"
proof -
  obtain c where c: "line = [c, CHR 0x0A]" "c = CHR ''l'' \<or> c = CHR ''r''"
    using assms(3) by blast
  then have cin: "c \<in> set ''lrud''" by auto
  define sm where "sm = (fst (getSliderMappingByKey cm (currentSliderName g1)))\<lparr>Volume := wantedValue g1\<rparr>"
  define e where "e = \<lparr>SliderID = currentSliderName g1, PercentValue = wantedValue g1\<rparr>"
  from handleLine_token_cases [OF cin assms(4) [unfolded c(1)] sm_def e_def]
  have g1: "g1 = switchLine [c] g cm"
    and cm1: "cm1 = cm \<or> UpdateSliderMappingByKey cm (currentSliderName g1) sm = Inr cm1"
    and tr: "\<forall>x \<in> set tr. x = Updated (currentSliderName g1) sm \<or> (\<exists>k. x = Sent k e)"
    by blast+
  from assms(1) have v: "0 \<le> Volume (fst (getSliderMappingByKey cm (currentSliderName g)))"
      "Volume (fst (getSliderMappingByKey cm (currentSliderName g))) \<le> 1"
    by (simp_all add: volumesInRange_def)
  have step: "0 \<le> f32 (1 / 100)"
    by (rule f32_nonneg) simp
  have down: "f32 (Volume (fst (getSliderMappingByKey cm (currentSliderName g))) - f32 (1 / 100)) \<le> 1"
    using v step by (intro f32_le_one) simp
  have up: "0 \<le> f32 (Volume (fst (getSliderMappingByKey cm (currentSliderName g))) + f32 (1 / 100))"
    using v step by (intro f32_nonneg) simp
  have w: "0 \<le> wantedValue g1 \<and> wantedValue g1 \<le> 1 \<and> \<not> isButtonHeld g1"
    using c(2) g1 assms(2) down up by (auto simp: switchLine_l_volume switchLine_r_volume)
  have "volumesInRange cm1"
    using cm1 assms(1) w volumesInRange_update [of cm "currentSliderName g1" sm cm1]
    by (auto simp: sm_def)
  moreover have "\<forall>k e'. Sent k e' \<in> set tr \<longrightarrow> 0 \<le> PercentValue e' \<and> PercentValue e' \<le> 1"
    using tr w by (auto simp: e_def)
  ultimately show ?thesis using w by simp
qed


subsection \<open>Evaluating the scenarios\<close>

lemmas model_defs =
  handleLine_def expectedLinePattern_def TrimSuffix_def switchLine_def moveEvents_def
  getSliderMappingByKey_def getSliderMappingByIndex_def getSliderMappingKeyByIndex_def
  getSliderMappingCount_def UpdateSliderMappingByKey_def mapIndex_def mapLen_def mapAssign_def
  zeroSliderMapping_def initialGlobals_def defaultConfig_def

lemmas scenario_defs =
  onMaster_def threeSliders_def masterMapping_def gameMapping_def chatMapping_def

lemma volumesInRange_threeSliders: "volumesInRange threeSliders"
  by (simp add: volumesInRange_def model_defs scenario_defs)

subsection \<open>Channel selection\<close>

lemma handleLines_append:
  "handleLines consumers (xs @ ys) s =
     (case handleLines consumers xs s of
        (g1, cm1, tr1, Some p) \<Rightarrow> (g1, cm1, tr1, Some p)
      | (g1, cm1, tr1, None) \<Rightarrow>
          (case handleLines consumers ys (g1, cm1) of
             (g2, cm2, tr2, p) \<Rightarrow> (g2, cm2, tr1 @ tr2, p)))"
  by (induction xs arbitrary: s) (auto split: prod.splits option.splits)

lemma handleLine_quiet:
  assumes "c \<in> set ''lrud''" and "\<not> needToUpdate (switchLine [c] g cm)"
  shows "handleLine consumers [c, CHR 0x0A] (g, cm) = (switchLine [c] g cm, cm, [], None)"
  using assms by (simp add: handleLine_token moveEvents_def)

lemma held_right_repeat:
  assumes "isButtonHeld g" and "\<not> needToUpdate g"
    and "currentSliderIndex g \<le> min 1024 (getSliderMappingCount cm)"
  shows "\<exists>g1. handleLines consumers (replicate N [CHR ''r'', CHR 0x0A]) (g, cm) = (g1, cm, [], None) \<and>
           isButtonHeld g1 \<and> \<not> needToUpdate g1 \<and>
           currentSliderIndex g1 = min (currentSliderIndex g + int N) (min 1024 (getSliderMappingCount cm))"
  using assms
proof (induction N arbitrary: g)
  case 0
  then show ?case by simp
next
  case (Suc N)
  let ?g = "switchLine ''r'' g cm"
  have step: "handleLine consumers [CHR ''r'', CHR 0x0A] (g, cm) = (?g, cm, [], None)"
    using Suc.prems by (simp add: handleLine_quiet switchLine_r_held)
  have g: "isButtonHeld ?g" "\<not> needToUpdate ?g"
      "currentSliderIndex ?g = min (currentSliderIndex g + 1) (min 1024 (getSliderMappingCount cm))"
    using Suc.prems by (simp_all add: switchLine_r_held)
  then have "currentSliderIndex ?g \<le> min 1024 (getSliderMappingCount cm)" by linarith
  from Suc.IH [OF g(1,2) this] obtain g1 where
    g1: "handleLines consumers (replicate N [CHR ''r'', CHR 0x0A]) (?g, cm) = (g1, cm, [], None)"
      "isButtonHeld g1" "\<not> needToUpdate g1"
      "currentSliderIndex g1 = min (currentSliderIndex ?g + int N) (min 1024 (getSliderMappingCount cm))"
    by blast
  have "currentSliderIndex g1 = min (currentSliderIndex g + int (Suc N)) (min 1024 (getSliderMappingCount cm))"
    using g1(4) g(3) by linarith
  with g1 step show ?case by simp
qed

lemma held_left_repeat:
  assumes "isButtonHeld g" and "\<not> needToUpdate g" and "0 \<le> currentSliderIndex g"
  shows "\<exists>g1. handleLines consumers (replicate N [CHR ''l'', CHR 0x0A]) (g, cm) = (g1, cm, [], None) \<and>
           isButtonHeld g1 \<and> \<not> needToUpdate g1 \<and>
           currentSliderIndex g1 = max (currentSliderIndex g - int N) 0"
  using assms
proof (induction N arbitrary: g)
  case 0
  then show ?case by simp
next
  case (Suc N)
  let ?g = "switchLine ''l'' g cm"
  have step: "handleLine consumers [CHR ''l'', CHR 0x0A] (g, cm) = (?g, cm, [], None)"
    using Suc.prems by (simp add: handleLine_quiet switchLine_l_held)
  have g: "isButtonHeld ?g" "\<not> needToUpdate ?g"
      "currentSliderIndex ?g = max 0 (currentSliderIndex g - 1)"
    using Suc.prems by (simp_all add: switchLine_l_held)
  then have "0 \<le> currentSliderIndex ?g" by linarith
  from Suc.IH [OF g(1,2) this] obtain g1 where
    g1: "handleLines consumers (replicate N [CHR ''l'', CHR 0x0A]) (?g, cm) = (g1, cm, [], None)"
      "isButtonHeld g1" "\<not> needToUpdate g1"
      "currentSliderIndex g1 = max (currentSliderIndex ?g - int N) 0"
    by blast
  have "currentSliderIndex g1 = max (currentSliderIndex g - int (Suc N)) 0"
    using g1(4) g(3) Suc.prems(3) by linarith
  with g1 step show ?case by simp
qed

text \<open>Press, any tokens that stay quiet under the held button, release.\<close>

lemma press_turn_release:
  assumes "\<And>g0. isButtonHeld g0 \<Longrightarrow> \<not> needToUpdate g0 \<Longrightarrow> currentSliderIndex g0 = currentSliderIndex g \<Longrightarrow>
            \<exists>g1. handleLines consumers turns (g0, cm) = (g1, cm, [], None) \<and> currentSliderIndex g1 = target"
  shows "\<exists>g2. handleLines consumers ([CHR ''d'', CHR 0x0A] # turns @ [[CHR ''u'', CHR 0x0A]]) (g, cm)
             = (g2, cm, [], None) \<and>
           \<not> isButtonHeld g2 \<and> currentSliderIndex g2 = target \<and>
           currentSliderName g2 = fst (getSliderMappingKeyByIndex cm target)"
proof -
  let ?d = "switchLine ''d'' g cm"
  have d: "handleLine consumers [CHR ''d'', CHR 0x0A] (g, cm) = (?d, cm, [], None)"
    by (simp add: handleLine_quiet switchLine_d)
  have "isButtonHeld ?d" "\<not> needToUpdate ?d" "currentSliderIndex ?d = currentSliderIndex g"
    by (simp_all add: switchLine_d)
  from assms [OF this] obtain g1 where
    g1: "handleLines consumers turns (?d, cm) = (g1, cm, [], None)" "currentSliderIndex g1 = target"
    by blast
  let ?u = "switchLine ''u'' g1 cm"
  have u: "handleLine consumers [CHR ''u'', CHR 0x0A] (g1, cm) = (?u, cm, [], None)"
    by (simp add: handleLine_quiet switchLine_u)
  have "handleLines consumers ([CHR ''d'', CHR 0x0A] # turns @ [[CHR ''u'', CHR 0x0A]]) (g, cm)
          = (?u, cm, [], None)"
    using d g1(1) u by (simp add: handleLines_append)
  moreover have "\<not> isButtonHeld ?u" "currentSliderIndex ?u = target"
      "currentSliderName ?u = fst (getSliderMappingKeyByIndex cm target)"
    using g1(2) by (simp_all add: switchLine_u)
  ultimately show ?thesis by blast
qed

lemma select_right:
  assumes "currentSliderIndex g \<le> min 1024 (getSliderMappingCount cm)"
  shows "\<exists>g2. handleLines consumers
        ([CHR ''d'', CHR 0x0A] # replicate N [CHR ''r'', CHR 0x0A] @ [[CHR ''u'', CHR 0x0A]]) (g, cm)
          = (g2, cm, [], None) \<and>
        currentSliderIndex g2 = min (currentSliderIndex g + int N) (min 1024 (getSliderMappingCount cm))"
proof -
  have "\<exists>g1. handleLines consumers (replicate N [CHR ''r'', CHR 0x0A]) (g0, cm) = (g1, cm, [], None) \<and>
          currentSliderIndex g1 = min (currentSliderIndex g + int N) (min 1024 (getSliderMappingCount cm))"
    if "isButtonHeld g0" "\<not> needToUpdate g0" "currentSliderIndex g0 = currentSliderIndex g" for g0
    using held_right_repeat [of g0 cm consumers N] that assms by auto
  from press_turn_release [of g consumers "replicate N [CHR ''r'', CHR 0x0A]" cm, OF this]
  show ?thesis by blast
qed

lemma select_left:
  assumes "0 \<le> currentSliderIndex g"
  shows "\<exists>g2. handleLines consumers
        ([CHR ''d'', CHR 0x0A] # replicate N [CHR ''l'', CHR 0x0A] @ [[CHR ''u'', CHR 0x0A]]) (g, cm)
          = (g2, cm, [], None) \<and>
        currentSliderIndex g2 = max (currentSliderIndex g - int N) 0"
proof -
  have "\<exists>g1. handleLines consumers (replicate N [CHR ''l'', CHR 0x0A]) (g0, cm) = (g1, cm, [], None) \<and>
          currentSliderIndex g1 = max (currentSliderIndex g - int N) 0"
    if "isButtonHeld g0" "\<not> needToUpdate g0" "currentSliderIndex g0 = currentSliderIndex g" for g0
    using held_left_repeat [of g0 consumers N cm] that assms by auto
  from press_turn_release [of g consumers "replicate N [CHR ''l'', CHR 0x0A]" cm, OF this]
  show ?thesis by blast
qed

lemma getSliderMappingCount_threeSliders: "getSliderMappingCount threeSliders = 3"
  by (simp add: getSliderMappingCount_def mapLen_def threeSliders_def)

lemma distinct_manyNames: "distinct manyNames"
proof -
  have "inj_on (\<lambda>n. replicate n (CHR ''s'')) (set [0..<1025])"
    by (rule inj_onI) (metis length_replicate)
  then show ?thesis
    unfolding manyNames_def by (simp add: distinct_map)
qed

lemma getSliderMappingCount_manySliders: "getSliderMappingCount manySliders = 1025"
proof -
  have "dom (map_of (map (\<lambda>key. (key, zeroSliderMapping)) manyNames)) = set manyNames"
    by (simp add: dom_map_of_conv_image_fst image_image)
  moreover have "card (set manyNames) = length manyNames"
    using distinct_manyNames by (rule distinct_card)
  moreover have "length manyNames = 1025"
    by (simp add: manyNames_def)
  ultimately show ?thesis
    by (simp add: getSliderMappingCount_def mapLen_def manySliders_def)
qed

text \<open>
  Claim C6 as stated takes the slider count for the ceiling. With 1025 sliders, a press,
  1025 turns to the right and a release from index 0 stop at 1024, not at 1025.
\<close>

theorem channel_select_count_counterexample:
  "currentSliderIndex (fst (handleLines []
      ([CHR ''d'', CHR 0x0A] # replicate 1025 [CHR ''r'', CHR 0x0A] @ [[CHR ''u'', CHR 0x0A]])
      (initialGlobals, manySliders)))
     \<noteq> min (currentSliderIndex initialGlobals + 1025) (getSliderMappingCount manySliders)"
proof -
  have "currentSliderIndex initialGlobals \<le> min 1024 (getSliderMappingCount manySliders)"
    by (simp add: initialGlobals_def getSliderMappingCount_manySliders)
  from select_right [OF this, of "[]" 1025]
  have "currentSliderIndex (fst (handleLines []
      ([CHR ''d'', CHR 0x0A] # replicate 1025 [CHR ''r'', CHR 0x0A] @ [[CHR ''u'', CHR 0x0A]])
      (initialGlobals, manySliders))) = 1024"
    by (auto simp: initialGlobals_def getSliderMappingCount_manySliders)
  then show ?thesis
    by (simp add: initialGlobals_def getSliderMappingCount_manySliders)
qed

text \<open>
  Claim C6, amended. From an index \<open>i\<close> between 0 and the smaller of 1024 and the slider
  count, \<^verbatim>\<open>d\<close>, then \<^verbatim>\<open>r\<close> \<open>N\<close> times, then \<^verbatim>\<open>u\<close> leaves the index at the smaller of
  \<open>i + N\<close>, 1024 and the slider count; with \<^verbatim>\<open>l\<close> instead of \<^verbatim>\<open>r\<close> it leaves the index
  at \<open>i - N\<close>, not below 0. Neither sequence changes the manager or sends an event.
\<close>

theorem channel_select_bounds:
  assumes "0 \<le> currentSliderIndex g"
    and "currentSliderIndex g \<le> min 1024 (getSliderMappingCount cm)"
  shows
    "currentSliderIndex (fst (handleLines consumers
        ([CHR ''d'', CHR 0x0A] # replicate N [CHR ''r'', CHR 0x0A] @ [[CHR ''u'', CHR 0x0A]]) (g, cm)))
       = min (currentSliderIndex g + int N) (min 1024 (getSliderMappingCount cm)) \<and>
     currentSliderIndex (fst (handleLines consumers
        ([CHR ''d'', CHR 0x0A] # replicate N [CHR ''l'', CHR 0x0A] @ [[CHR ''u'', CHR 0x0A]]) (g, cm)))
       = max (currentSliderIndex g - int N) 0 \<and>
     snd (handleLines consumers
        ([CHR ''d'', CHR 0x0A] # replicate N [CHR ''r'', CHR 0x0A] @ [[CHR ''u'', CHR 0x0A]]) (g, cm))
       = (cm, [], None) \<and>
     snd (handleLines consumers
        ([CHR ''d'', CHR 0x0A] # replicate N [CHR ''l'', CHR 0x0A] @ [[CHR ''u'', CHR 0x0A]]) (g, cm))
       = (cm, [], None)"
  using select_right [OF assms(2), of consumers N] select_left [OF assms(1), of consumers N cm]
  by auto

text \<open>Three sliders, from index 1, five turns either way.\<close>

theorem channel_select_bounds_witness:
  "0 \<le> currentSliderIndex (onMaster\<lparr>currentSliderIndex := 1\<rparr>) \<and>
   currentSliderIndex (onMaster\<lparr>currentSliderIndex := 1\<rparr>) \<le> min 1024 (getSliderMappingCount threeSliders) \<and>
   currentSliderIndex (fst (handleLines [0]
        ([CHR ''d'', CHR 0x0A] # replicate 5 [CHR ''r'', CHR 0x0A] @ [[CHR ''u'', CHR 0x0A]])
        (onMaster\<lparr>currentSliderIndex := 1\<rparr>, threeSliders))) = 3 \<and>
   currentSliderIndex (fst (handleLines [0]
        ([CHR ''d'', CHR 0x0A] # replicate 5 [CHR ''l'', CHR 0x0A] @ [[CHR ''u'', CHR 0x0A]])
        (onMaster\<lparr>currentSliderIndex := 1\<rparr>, threeSliders))) = 0"
proof -
  have lo: "0 \<le> currentSliderIndex (onMaster\<lparr>currentSliderIndex := 1\<rparr>)" by simp
  have hi: "currentSliderIndex (onMaster\<lparr>currentSliderIndex := 1\<rparr>)
      \<le> min 1024 (getSliderMappingCount threeSliders)"
    by (simp add: getSliderMappingCount_threeSliders)
  show ?thesis
    using channel_select_bounds [OF lo hi, of "[0]" 5] lo hi
    by (simp add: getSliderMappingCount_threeSliders)
qed

subsection \<open>The whole effect of one token\<close>

lemma handleLine_token_outcome:
  assumes "c \<in> set ''lrud''"
    and "g1 = switchLine [c] g cm"
    and "e = \<lparr>SliderID = currentSliderName g1, PercentValue = wantedValue g1\<rparr>"
    and "sm = (fst (getSliderMappingByKey cm (currentSliderName g1)))\<lparr>Volume := wantedValue g1\<rparr>"
  shows "handleLine consumers [c, CHR 0x0A] (g, cm) =
     (if moveEvents g1 cm = [] \<or> consumers = [] then (g1, cm, [], None)
      else (case UpdateSliderMappingByKey cm (currentSliderName g1) sm of
              Inl q \<Rightarrow> (g1, cm, [Sent (hd consumers) e], Some q)
            | Inr cm1 \<Rightarrow>
                (g1, cm1, concat (map (\<lambda>k. [Sent k e, Updated (currentSliderName g1) sm]) consumers), None)))"
proof (cases "moveEvents g1 cm = [] \<or> consumers = []")
  case True
  then show ?thesis
    using assms(1,2) by (auto simp: handleLine_token)
next
  case False
  with moveEvents_cases [of g1 cm] assms(3) have ev: "moveEvents g1 cm = [e]" by simp
  from False obtain k ks where ks: "consumers = k # ks" by (cases consumers) auto
  have id: "SliderID e = currentSliderName g1" "PercentValue e = wantedValue g1"
    by (simp_all add: assms(3))
  show ?thesis
  proof (cases "SliderMappings (Config cm)")
    case None
    from deliver_nil_map [OF None, of k ks e "[]"] UpdateSliderMappingByKey_nil [OF None]
    show ?thesis
      using assms(1,2) ev ks False by (simp add: handleLine_token)
  next
    case (Some m)
    from UpdateSliderMappingByKey_Some [OF Some, of "currentSliderName g1" sm]
    obtain cm2 where up: "UpdateSliderMappingByKey cm (SliderID e) sm = Inr cm2"
      by (simp add: id)
    have sm: "sm = (fst (getSliderMappingByKey cm (SliderID e)))\<lparr>Volume := PercentValue e\<rparr>"
      by (simp add: id assms(4))
    from deliver_written [OF up sm, of k ks "[]"] up
    show ?thesis
      using assms(1,2) ev ks False by (simp add: handleLine_token id)
  qed
qed


subsection \<open>The write-back\<close>

lemma handleLine_lines_only:
  assumes "handleLine consumers line (g, cm) = (g1, cm1, tr, p)" and "tr \<noteq> []"
  shows "\<exists>c. c \<in> set ''lrud'' \<and> line = [c, CHR 0x0A]"
  using assms by (auto simp: handleLine_def expectedLinePattern_def split: if_splits list.splits)

text \<open>
  Claim C10. When \<^verbatim>\<open>handleLine\<close> writes a value back (it read the mapping by key, set its
  \<^verbatim>\<open>Volume\<close> and stored it by key), the key is the current slider name and the stored
  mapping is the one read with only \<^verbatim>\<open>Volume\<close> replaced by the target value: \<^verbatim>\<open>Muted\<close>
  and \<^verbatim>\<open>Targets\<close> are as before, every other slider's mapping is as before, and so are the
  key sequence and the other fields of the \<^verbatim>\<open>Config\<close>.
\<close>

theorem writeback_frame:
  assumes "handleLine consumers line (g, cm) = (g1, cm1, tr, p)"
    and "Updated key sm \<in> set tr"
  shows "key = currentSliderName g1 \<and>
         sm = (fst (getSliderMappingByKey cm key))\<lparr>Volume := wantedValue g1\<rparr> \<and>
         getSliderMappingByKey cm1 key = (sm, None) \<and>
         Muted sm = Muted (fst (getSliderMappingByKey cm key)) \<and>
         Targets sm = Targets (fst (getSliderMappingByKey cm key)) \<and>
         (\<forall>old. mapIndex (SliderMappings (Config cm)) key = Some old \<longrightarrow>
            mapIndex (SliderMappings (Config cm1)) key = Some (old\<lparr>Volume := wantedValue g1\<rparr>)) \<and>
         (\<forall>other. other \<noteq> key \<longrightarrow>
            mapIndex (SliderMappings (Config cm1)) other = mapIndex (SliderMappings (Config cm)) other) \<and>
         orderedSliderKeys cm1 = orderedSliderKeys cm \<and>
         Config cm1 = (Config cm)\<lparr>SliderMappings := SliderMappings (Config cm1)\<rparr>"
proof -
  from assms have "tr \<noteq> []" by auto
  from handleLine_lines_only [OF assms(1) this] obtain c where
    c: "c \<in> set ''lrud''" "line = [c, CHR 0x0A]" by blast
  define g2 where "g2 = switchLine [c] g cm"
  define e where "e = \<lparr>SliderID = currentSliderName g2, PercentValue = wantedValue g2\<rparr>"
  define sm2 where "sm2 = (fst (getSliderMappingByKey cm (currentSliderName g2)))\<lparr>Volume := wantedValue g2\<rparr>"
  note out = handleLine_token_outcome [OF c(1) g2_def e_def sm2_def, of consumers]
  from out assms(1) c(2) have g: "g1 = g2"
    by (auto split: if_splits sum.splits)
  from out assms c(2) \<open>tr \<noteq> []\<close> have up: "UpdateSliderMappingByKey cm (currentSliderName g2) sm2 = Inr cm1"
    by (auto split: if_splits sum.splits)
  from out assms c(2) up have "Updated key sm \<in> set (concat (map (\<lambda>k. [Sent k e, Updated (currentSliderName g2) sm2]) consumers))"
    by (auto split: if_splits)
  then have ks: "key = currentSliderName g2" "sm = sm2" by auto
  from up obtain m where m: "SliderMappings (Config cm) = Some m"
    by (cases "SliderMappings (Config cm)") (auto simp: UpdateSliderMappingByKey_nil)
  from up UpdateSliderMappingByKey_Some [OF m, of "currentSliderName g2" sm2]
  have cm1: "cm1 = cm\<lparr>Config := (Config cm)\<lparr>SliderMappings := Some (m(currentSliderName g2 \<mapsto> sm2))\<rparr>,
                    configModified := True\<rparr>"
    by simp
  show ?thesis
    using ks g m by (auto simp: cm1 sm2_def getSliderMappingByKey_def mapIndex_def)
qed

text \<open>One turn to the right on \<^verbatim>\<open>master\<close> with one consumer.\<close>

lemma right_on_master:
  "handleLine [0] [CHR ''r'', CHR 0x0A] (onMaster, threeSliders) =
     (onMaster\<lparr>wantedValue := f32 (51 / 100), needToUpdate := True\<rparr>,
      threeSliders\<lparr>Config := (Config threeSliders)\<lparr>SliderMappings :=
          Some [''master'' \<mapsto> masterMapping\<lparr>Volume := f32 (51 / 100)\<rparr>, ''game'' \<mapsto> gameMapping,
                ''chat'' \<mapsto> chatMapping]\<rparr>,
        configModified := True\<rparr>,
      [Sent 0 \<lparr>SliderID = ''master'', PercentValue = f32 (51 / 100)\<rparr>,
       Updated ''master'' (masterMapping\<lparr>Volume := f32 (51 / 100)\<rparr>)],
      None)"
  by (simp add: model_defs scenario_defs f32_values Let_def fun_upd_twist)


text \<open>After that turn \<^verbatim>\<open>master\<close> keeps its mute flag and targets and \<^verbatim>\<open>game\<close> is untouched.\<close>

theorem writeback_frame_witness:
  "Updated ''master'' (masterMapping\<lparr>Volume := f32 (51 / 100)\<rparr>)
     \<in> set (fst (snd (snd (handleLine [0] [CHR ''r'', CHR 0x0A] (onMaster, threeSliders))))) \<and>
   getSliderMappingByKey (fst (snd (handleLine [0] [CHR ''r'', CHR 0x0A] (onMaster, threeSliders)))) ''master''
     = (\<lparr>Volume = f32 (51 / 100), Muted = True, Targets = [''master'']\<rparr>, None) \<and>
   getSliderMappingByKey (fst (snd (handleLine [0] [CHR ''r'', CHR 0x0A] (onMaster, threeSliders)))) ''game''
     = (gameMapping, None) \<and>
   orderedSliderKeys (fst (snd (handleLine [0] [CHR ''r'', CHR 0x0A] (onMaster, threeSliders))))
     = [''master'', ''game'', ''chat'']"
proof -
  let ?R = "handleLine [0] [CHR ''r'', CHR 0x0A] (onMaster, threeSliders)"
  have res: "?R = (fst ?R, fst (snd ?R), fst (snd (snd ?R)), snd (snd (snd ?R)))"
    by simp
  have upd: "Updated ''master'' (masterMapping\<lparr>Volume := f32 (51 / 100)\<rparr>) \<in> set (fst (snd (snd ?R)))"
    by (simp add: right_on_master)
  have before: "mapIndex (SliderMappings (Config threeSliders)) ''game'' = Some gameMapping"
      "orderedSliderKeys threeSliders = [''master'', ''game'', ''chat'']"
    by (simp_all add: model_defs scenario_defs)
  note frame = writeback_frame [OF res upd]
  from frame have master: "getSliderMappingByKey (fst (snd ?R)) ''master''
      = (masterMapping\<lparr>Volume := f32 (51 / 100)\<rparr>, None)"
    by blast
  from frame have "\<forall>other. other \<noteq> ''master'' \<longrightarrow>
      mapIndex (SliderMappings (Config (fst (snd ?R)))) other
        = mapIndex (SliderMappings (Config threeSliders)) other"
    by blast
  then have "mapIndex (SliderMappings (Config (fst (snd ?R)))) ''game''
      = mapIndex (SliderMappings (Config threeSliders)) ''game''"
    by simp
  then have game: "getSliderMappingByKey (fst (snd ?R)) ''game'' = (gameMapping, None)"
    by (simp add: before getSliderMappingByKey_def)
  from frame have keys: "orderedSliderKeys (fst (snd ?R)) = orderedSliderKeys threeSliders"
    by blast
  show ?thesis
    using upd master game keys before(2) by (simp add: masterMapping_def)
qed


subsection \<open>A session that has just started\<close>

text \<open>
  Claim C7 expects the first \<^verbatim>\<open>r\<close> of a fresh session over \<^verbatim>\<open>master\<close>, \<^verbatim>\<open>game\<close>, \<^verbatim>\<open>chat\<close>
  (all at 0.5) to raise \<^verbatim>\<open>master\<close> to 0.51 with one event for \<^verbatim>\<open>master\<close>. The variables
  start at index 0 with the empty name, and nothing resolves the name before the first
  release of the button: the event carries the empty name and 0.01, the write-back adds
  the empty name to the mapping, and \<^verbatim>\<open>master\<close> stays at 0.5.
\<close>

theorem startup_right_moves_unnamed_slider:
  "handleLine [0] [CHR ''r'', CHR 0x0A] (initialGlobals, threeSliders) =
     (initialGlobals\<lparr>wantedValue := f32 (1 / 100), needToUpdate := True\<rparr>,
      threeSliders\<lparr>Config := (Config threeSliders)\<lparr>SliderMappings :=
          Some [''master'' \<mapsto> masterMapping, ''game'' \<mapsto> gameMapping, ''chat'' \<mapsto> chatMapping,
                [] \<mapsto> zeroSliderMapping\<lparr>Volume := f32 (1 / 100)\<rparr>]\<rparr>,
        configModified := True\<rparr>,
      [Sent 0 \<lparr>SliderID = [], PercentValue = f32 (1 / 100)\<rparr>,
       Updated [] (zeroSliderMapping\<lparr>Volume := f32 (1 / 100)\<rparr>)],
      None) \<and>
   currentSliderIndex initialGlobals = 0 \<and>
   getSliderMappingKeyByIndex threeSliders 0 = (''master'', None)"
  by (simp add: model_defs scenario_defs f32_values Let_def fun_upd_twist)

text \<open>
  Claim C4 expects an event for the selected slider exactly when the target differs
  from that slider's stored value. In the same fresh session an \<^verbatim>\<open>l\<close> computes the
  target 0 from the empty name, whose stored value reads as 0, and still sends an event:
  the comparison is made with the slider at the current index (\<^verbatim>\<open>master\<close>, 0.5), and
  the event names the empty name, not \<^verbatim>\<open>master\<close>.
\<close>

theorem startup_left_sends_unchanged_value:
  "handleLine [0] [CHR ''l'', CHR 0x0A] (initialGlobals, threeSliders) =
     (initialGlobals\<lparr>wantedValue := 0, needToUpdate := True\<rparr>,
      threeSliders\<lparr>Config := (Config threeSliders)\<lparr>SliderMappings :=
          Some [''master'' \<mapsto> masterMapping, ''game'' \<mapsto> gameMapping, ''chat'' \<mapsto> chatMapping,
                [] \<mapsto> zeroSliderMapping]\<rparr>,
        configModified := True\<rparr>,
      [Sent 0 \<lparr>SliderID = [], PercentValue = 0\<rparr>, Updated [] zeroSliderMapping],
      None) \<and>
   getSliderMappingByKey threeSliders (currentSliderName initialGlobals)
     = (zeroSliderMapping, Some (ErrKeyNotFound [])) \<and>
   Volume zeroSliderMapping = 0"
  by (simp add: model_defs scenario_defs f32_values Let_def fun_upd_twist)

text \<open>
  The rest of the start-up scenario: \<^verbatim>\<open>d\<close>, \<^verbatim>\<open>r\<close>, \<^verbatim>\<open>u\<close> select \<^verbatim>\<open>game\<close> without an event
  or a change of the manager, and an \<^verbatim>\<open>l\<close> then lowers \<^verbatim>\<open>game\<close> to 0.49 with one event.
\<close>

theorem select_game_then_left:
  "handleLines [0] [[CHR ''d'', CHR 0x0A], [CHR ''r'', CHR 0x0A], [CHR ''u'', CHR 0x0A]]
       (initialGlobals, threeSliders) =
     (\<lparr>currentSliderIndex = 1, currentSliderName = ''game'', wantedValue = 1 / 2,
       isButtonHeld = False, needToUpdate = False\<rparr>, threeSliders, [], None) \<and>
   handleLine [0] [CHR ''l'', CHR 0x0A]
       (\<lparr>currentSliderIndex = 1, currentSliderName = ''game'', wantedValue = 1 / 2,
         isButtonHeld = False, needToUpdate = False\<rparr>, threeSliders) =
     (\<lparr>currentSliderIndex = 1, currentSliderName = ''game'', wantedValue = f32 (49 / 100),
       isButtonHeld = False, needToUpdate = True\<rparr>,
      threeSliders\<lparr>Config := (Config threeSliders)\<lparr>SliderMappings :=
          Some [''master'' \<mapsto> masterMapping, ''game'' \<mapsto> gameMapping\<lparr>Volume := f32 (49 / 100)\<rparr>,
                ''chat'' \<mapsto> chatMapping]\<rparr>,
        configModified := True\<rparr>,
      [Sent 0 \<lparr>SliderID = ''game'', PercentValue = f32 (49 / 100)\<rparr>,
       Updated ''game'' (gameMapping\<lparr>Volume := f32 (49 / 100)\<rparr>)],
      None)"
  by (simp add: model_defs scenario_defs f32_values Let_def fun_upd_twist)

lemma sentTo_rounds:
  "distinct consumers \<Longrightarrow>
   sentTo k (concat (map (\<lambda>j. [Sent j e, Updated key sm]) consumers)) =
     (if k \<in> set consumers then [e] else [])"
  by (induction consumers) auto

text \<open>
  Where the current name is the key at the current index and that key is in the
  mapping, an \<^verbatim>\<open>l\<close> or \<^verbatim>\<open>r\<close> with the button not held sends each consumer exactly one
  event, for that slider and with the target value, if the target differs from the
  stored volume, and sends nothing if they are equal.
\<close>

theorem volume_mode_emission:
  assumes "\<not> isButtonHeld g"
    and "getSliderMappingKeyByIndex cm (currentSliderIndex g) = (currentSliderName g, None)"
    and "mapIndex (SliderMappings (Config cm)) (currentSliderName g) = Some stored"
    and "line = [CHR ''l'', CHR 0x0A] \<or> line = [CHR ''r'', CHR 0x0A]"
    and "distinct consumers"
  shows "sentTo k (fst (snd (snd (handleLine consumers line (g, cm))))) =
           (if k \<in> set consumers \<and> wantedValue (fst (handleLine consumers line (g, cm))) \<noteq> Volume stored
            then [\<lparr>SliderID = currentSliderName g,
                   PercentValue = wantedValue (fst (handleLine consumers line (g, cm)))\<rparr>]
            else [])"
proof -
  obtain c where c: "line = [c, CHR 0x0A]" "c = CHR ''l'' \<or> c = CHR ''r''"
    using assms(4) by blast
  then have cin: "c \<in> set ''lrud''" by auto
  define g1 where "g1 = switchLine [c] g cm"
  define e where "e = \<lparr>SliderID = currentSliderName g1, PercentValue = wantedValue g1\<rparr>"
  define sm where "sm = (fst (getSliderMappingByKey cm (currentSliderName g1)))\<lparr>Volume := wantedValue g1\<rparr>"
  note out = handleLine_token_outcome [OF cin g1_def e_def sm_def, of consumers]
  have same: "currentSliderName g1 = currentSliderName g" "currentSliderIndex g1 = currentSliderIndex g"
      "needToUpdate g1"
    using c(2) assms(1) by (auto simp: g1_def switchLine_l_volume switchLine_r_volume)
  from assms(2) have inrange: "0 \<le> currentSliderIndex g"
      "currentSliderIndex g < int (length (orderedSliderKeys cm))"
      "orderedSliderKeys cm ! nat (currentSliderIndex g) = currentSliderName g"
    by (auto simp: getSliderMappingKeyByIndex_def split: if_splits)
  then have atIndex: "getSliderMappingByIndex cm (currentSliderIndex g) = (stored, None)"
    using assms(3) by (simp add: getSliderMappingByIndex_def)
  have ev: "moveEvents g1 cm = (if wantedValue g1 \<noteq> Volume stored then [e] else [])"
    by (simp add: moveEvents_def same atIndex e_def)
  from assms(3) obtain m where m: "SliderMappings (Config cm) = Some m"
    by (cases "SliderMappings (Config cm)") (auto simp: mapIndex_def)
  note up = UpdateSliderMappingByKey_Some [OF m, of "currentSliderName g1" sm]
  have fst_out: "fst (handleLine consumers line (g, cm)) = g1"
    using out c(1) by (simp add: up)
  have tr_out: "fst (snd (snd (handleLine consumers line (g, cm)))) =
      (if wantedValue g1 \<noteq> Volume stored \<and> consumers \<noteq> []
       then concat (map (\<lambda>j. [Sent j e, Updated (currentSliderName g1) sm]) consumers) else [])"
    using out c(1) by (simp add: up ev)
  show ?thesis
    using assms(5) by (auto simp: fst_out tr_out sentTo_rounds e_def same)
qed


text \<open>On \<^verbatim>\<open>master\<close> at 0.5 with consumers 0 and 1: consumer 1 is sent one event, a
  consumer that is not subscribed none.\<close>

theorem volume_mode_emission_witness:
  "\<not> isButtonHeld onMaster \<and>
   getSliderMappingKeyByIndex threeSliders (currentSliderIndex onMaster) = (currentSliderName onMaster, None) \<and>
   mapIndex (SliderMappings (Config threeSliders)) (currentSliderName onMaster) = Some masterMapping \<and>
   sentTo 1 (fst (snd (snd (handleLine [0, 1] [CHR ''r'', CHR 0x0A] (onMaster, threeSliders)))))
     = [\<lparr>SliderID = ''master'', PercentValue = f32 (51 / 100)\<rparr>] \<and>
   sentTo 2 (fst (snd (snd (handleLine [0, 1] [CHR ''r'', CHR 0x0A] (onMaster, threeSliders))))) = []"
proof -
  have held: "\<not> isButtonHeld onMaster"
    by (simp add: onMaster_def initialGlobals_def)
  have name: "getSliderMappingKeyByIndex threeSliders (currentSliderIndex onMaster)
      = (currentSliderName onMaster, None)"
    by (simp add: model_defs scenario_defs)
  have stored: "mapIndex (SliderMappings (Config threeSliders)) (currentSliderName onMaster)
      = Some masterMapping"
    by (simp add: model_defs scenario_defs)
  have line: "[CHR ''r'', CHR 0x0A] = [CHR ''l'', CHR 0x0A] \<or> [CHR ''r'', CHR 0x0A] = [CHR ''r'', CHR 0x0A]"
    by simp
  have two: "distinct [0, 1 :: nat]" by simp
  have target: "wantedValue (fst (handleLine [0, 1] [CHR ''r'', CHR 0x0A] (onMaster, threeSliders))) = f32 (51 / 100)"
    by (simp add: model_defs scenario_defs f32_values Let_def)
  show ?thesis
    using volume_mode_emission [OF held name stored line two, of 1]
      volume_mode_emission [OF held name stored line two, of 2] held name stored target
    by (simp add: masterMapping_def onMaster_def f32_values)
qed

subsection \<open>Volume mode: the range and the effect of a turn\<close>

lemma volume_range_steps:
  assumes "volumesInRange cm" and "\<not> isButtonHeld g"
    and "set lines \<subseteq> {[CHR ''l'', CHR 0x0A], [CHR ''r'', CHR 0x0A]}"
    and "handleLines consumers lines (g, cm) = (g1, cm1, tr, p)"
  shows "volumesInRange cm1 \<and> \<not> isButtonHeld g1 \<and>
         (lines \<noteq> [] \<longrightarrow> 0 \<le> wantedValue g1 \<and> wantedValue g1 \<le> 1) \<and>
         (\<forall>k e. Sent k e \<in> set tr \<longrightarrow> 0 \<le> PercentValue e \<and> PercentValue e \<le> 1)"
  using assms
proof (induction lines arbitrary: g cm g1 cm1 tr p)
  case Nil
  then show ?case by auto
next
  case (Cons line rest)
  obtain g2 cm2 tr2 p2 where first: "handleLine consumers line (g, cm) = (g2, cm2, tr2, p2)"
    by (metis prod_cases4)
  from Cons.prems(3) have tok: "line = [CHR ''l'', CHR 0x0A] \<or> line = [CHR ''r'', CHR 0x0A]"
    by simp
  note step = handleLine_volume_step [OF Cons.prems(1,2) tok first]
  show ?case
  proof (cases p2)
    case (Some q)
    with first Cons.prems(4) have "g1 = g2" "cm1 = cm2" "tr = tr2" by simp_all
    with step show ?thesis by simp
  next
    case None
    obtain g3 cm3 tr3 p3 where more: "handleLines consumers rest (g2, cm2) = (g3, cm3, tr3, p3)"
      by (metis prod_cases4)
    with first None Cons.prems(4) have eqs: "g1 = g3" "cm1 = cm3" "tr = tr2 @ tr3" by simp_all
    from Cons.prems(3) have sub: "set rest \<subseteq> {[CHR ''l'', CHR 0x0A], [CHR ''r'', CHR 0x0A]}"
      by simp
    have ih: "volumesInRange cm3 \<and> \<not> isButtonHeld g3 \<and>
       (rest \<noteq> [] \<longrightarrow> 0 \<le> wantedValue g3 \<and> wantedValue g3 \<le> 1) \<and>
       (\<forall>k e. Sent k e \<in> set tr3 \<longrightarrow> 0 \<le> PercentValue e \<and> PercentValue e \<le> 1)"
      using Cons.IH [OF _ _ sub more] step by simp
    have last: "rest = [] \<Longrightarrow> g3 = g2"
      using more by simp
    show ?thesis
      using ih step eqs last by (cases "rest = []") auto
  qed
qed

text \<open>Where the name is the key at the index, a turn leaves the slider stored at the target.\<close>

lemma volume_step_stored:
  assumes "\<not> isButtonHeld g"
    and "getSliderMappingKeyByIndex cm (currentSliderIndex g) = (currentSliderName g, None)"
    and "mapIndex (SliderMappings (Config cm)) (currentSliderName g) = Some stored"
    and "consumers \<noteq> []" and "c = CHR ''l'' \<or> c = CHR ''r''"
  shows "getSliderMappingByKey (fst (snd (handleLine consumers [c, CHR 0x0A] (g, cm)))) (currentSliderName g)
           = (stored\<lparr>Volume := wantedValue (switchLine [c] g cm)\<rparr>, None)"
proof -
  have cin: "c \<in> set ''lrud''" using assms(5) by auto
  define g1 where "g1 = switchLine [c] g cm"
  define e where "e = \<lparr>SliderID = currentSliderName g1, PercentValue = wantedValue g1\<rparr>"
  define sm where "sm = (fst (getSliderMappingByKey cm (currentSliderName g1)))\<lparr>Volume := wantedValue g1\<rparr>"
  note out = handleLine_token_outcome [OF cin g1_def e_def sm_def, of consumers]
  have same: "currentSliderName g1 = currentSliderName g" "currentSliderIndex g1 = currentSliderIndex g"
      "needToUpdate g1"
    using assms(1,5) by (auto simp: g1_def switchLine_l_volume switchLine_r_volume)
  from assms(2) have inrange: "0 \<le> currentSliderIndex g"
      "currentSliderIndex g < int (length (orderedSliderKeys cm))"
      "orderedSliderKeys cm ! nat (currentSliderIndex g) = currentSliderName g"
    by (auto simp: getSliderMappingKeyByIndex_def split: if_splits)
  then have atIndex: "getSliderMappingByIndex cm (currentSliderIndex g) = (stored, None)"
    using assms(3) by (simp add: getSliderMappingByIndex_def)
  have byKey: "getSliderMappingByKey cm (currentSliderName g) = (stored, None)"
    using assms(3) by (simp add: getSliderMappingByKey_def)
  have ev: "moveEvents g1 cm = (if wantedValue g1 \<noteq> Volume stored then [e] else [])"
    by (simp add: moveEvents_def same atIndex e_def)
  from assms(3) obtain m where m: "SliderMappings (Config cm) = Some m"
    by (cases "SliderMappings (Config cm)") (auto simp: mapIndex_def)
  from UpdateSliderMappingByKey_Some [OF m, of "currentSliderName g1" sm]
  obtain cm2 where up: "UpdateSliderMappingByKey cm (currentSliderName g1) sm = Inr cm2"
    by blast
  show ?thesis
  proof (cases "wantedValue g1 = Volume stored")
    case True
    then have "fst (snd (handleLine consumers [c, CHR 0x0A] (g, cm))) = cm"
      using out by (simp add: ev)
    then show ?thesis
      using True byKey by (simp add: g1_def)
  next
    case False
    then have "fst (snd (handleLine consumers [c, CHR 0x0A] (g, cm))) = cm2"
      using out assms(4) by (simp add: ev up)
    moreover have "getSliderMappingByKey cm2 (currentSliderName g) = (sm, None)"
      using getSliderMappingByKey_update [OF up, of "currentSliderName g"] by (simp add: same)
    moreover have "sm = stored\<lparr>Volume := wantedValue g1\<rparr>"
      by (simp add: sm_def same byKey)
    ultimately have "getSliderMappingByKey (fst (snd (handleLine consumers [c, CHR 0x0A] (g, cm))))
        (currentSliderName g) = (stored\<lparr>Volume := wantedValue g1\<rparr>, None)"
      by simp
    then show ?thesis
      by (simp add: g1_def)
  qed
qed

text \<open>
  Claim C5 as stated keeps every target value within 0 and 1. Nothing checks the
  volumes of a loaded file: with \<^verbatim>\<open>master\<close> stored at 1.5, an \<^verbatim>\<open>l\<close> in volume mode
  computes, sends and stores 1.49, the floor at 0 being the only bound of that branch.
\<close>

theorem volume_above_range_counterexample:
  "\<not> isButtonHeld onMaster \<and>
   handleLine [0] [CHR ''l'', CHR 0x0A] (onMaster, loudSliders) =
     (onMaster\<lparr>wantedValue := f32 (149 / 100), needToUpdate := True\<rparr>,
      loudSliders\<lparr>Config := (Config loudSliders)\<lparr>SliderMappings :=
          Some [''master'' \<mapsto> masterMapping\<lparr>Volume := f32 (149 / 100)\<rparr>, ''game'' \<mapsto> gameMapping,
                ''chat'' \<mapsto> chatMapping]\<rparr>,
        configModified := True\<rparr>,
      [Sent 0 \<lparr>SliderID = ''master'', PercentValue = f32 (149 / 100)\<rparr>,
       Updated ''master'' (masterMapping\<lparr>Volume := f32 (149 / 100)\<rparr>)],
      None) \<and>
   1 < f32 (149 / 100)"
  by (simp add: model_defs scenario_defs loudSliders_def f32_values Let_def fun_upd_twist)

text \<open>
  Claim C5, amended. With the button not held: if every stored volume is within 0 and
  1, any sequence of \<^verbatim>\<open>l\<close> and \<^verbatim>\<open>r\<close> tokens keeps the target value, every event sent and
  every stored volume within 0 and 1. And where the current name is the key at the
  current index, that key is in the mapping and there is a consumer, an \<^verbatim>\<open>l\<close> leaves
  that slider stored at its volume less 0.01 (in float32), not below 0, and an \<^verbatim>\<open>r\<close>
  at its volume plus 0.01, not above 1; its other fields are as before.
\<close>

theorem volume_range_invariant:
  assumes "\<not> isButtonHeld g"
  shows
    "(volumesInRange cm \<longrightarrow> set lines \<subseteq> {[CHR ''l'', CHR 0x0A], [CHR ''r'', CHR 0x0A]} \<longrightarrow>
      handleLines consumers lines (g, cm) = (g1, cm1, tr, p) \<longrightarrow>
        volumesInRange cm1 \<and> \<not> isButtonHeld g1 \<and>
        (lines \<noteq> [] \<longrightarrow> 0 \<le> wantedValue g1 \<and> wantedValue g1 \<le> 1) \<and>
        (\<forall>k e. Sent k e \<in> set tr \<longrightarrow> 0 \<le> PercentValue e \<and> PercentValue e \<le> 1)) \<and>
     (getSliderMappingKeyByIndex cm (currentSliderIndex g) = (currentSliderName g, None) \<longrightarrow>
      mapIndex (SliderMappings (Config cm)) (currentSliderName g) = Some stored \<longrightarrow>
      consumers \<noteq> [] \<longrightarrow>
        getSliderMappingByKey (fst (snd (handleLine consumers [CHR ''l'', CHR 0x0A] (g, cm))))
            (currentSliderName g)
          = (stored\<lparr>Volume := max 0 (f32 (Volume stored - f32 (1 / 100)))\<rparr>, None) \<and>
        getSliderMappingByKey (fst (snd (handleLine consumers [CHR ''r'', CHR 0x0A] (g, cm))))
            (currentSliderName g)
          = (stored\<lparr>Volume := min 1 (f32 (Volume stored + f32 (1 / 100)))\<rparr>, None))"
proof (intro conjI impI)
  assume "volumesInRange cm"
    and "set lines \<subseteq> {[CHR ''l'', CHR 0x0A], [CHR ''r'', CHR 0x0A]}"
    and "handleLines consumers lines (g, cm) = (g1, cm1, tr, p)"
  from volume_range_steps [OF this(1) assms this(2,3)]
  show "volumesInRange cm1" and "\<not> isButtonHeld g1"
    and "lines \<noteq> [] \<Longrightarrow> 0 \<le> wantedValue g1" and "lines \<noteq> [] \<Longrightarrow> wantedValue g1 \<le> 1"
    and "\<forall>k e. Sent k e \<in> set tr \<longrightarrow> 0 \<le> PercentValue e \<and> PercentValue e \<le> 1"
    by blast+
next
  assume at: "getSliderMappingKeyByIndex cm (currentSliderIndex g) = (currentSliderName g, None)"
    and stored: "mapIndex (SliderMappings (Config cm)) (currentSliderName g) = Some stored"
    and some: "consumers \<noteq> []"
  have byKey: "getSliderMappingByKey cm (currentSliderName g) = (stored, None)"
    using stored by (simp add: getSliderMappingByKey_def)
  show "getSliderMappingByKey (fst (snd (handleLine consumers [CHR ''l'', CHR 0x0A] (g, cm))))
            (currentSliderName g)
          = (stored\<lparr>Volume := max 0 (f32 (Volume stored - f32 (1 / 100)))\<rparr>, None)"
    using volume_step_stored [OF assms at stored some, of "CHR ''l''"]
    by (simp add: switchLine_l_volume [OF assms] byKey)
  show "getSliderMappingByKey (fst (snd (handleLine consumers [CHR ''r'', CHR 0x0A] (g, cm))))
            (currentSliderName g)
          = (stored\<lparr>Volume := min 1 (f32 (Volume stored + f32 (1 / 100)))\<rparr>, None)"
    using volume_step_stored [OF assms at stored some, of "CHR ''r''"]
    by (simp add: switchLine_r_volume [OF assms] byKey)
qed

text \<open>On \<^verbatim>\<open>master\<close> at 0.5 with one consumer: the tokens \<^verbatim>\<open>r\<close>, \<^verbatim>\<open>r\<close>, \<^verbatim>\<open>l\<close> stay in range,
  an \<^verbatim>\<open>l\<close> leaves \<^verbatim>\<open>master\<close> stored at 0.49 and an \<^verbatim>\<open>r\<close> at 0.51.\<close>

theorem volume_range_invariant_witness:
  "\<not> isButtonHeld onMaster \<and> volumesInRange threeSliders \<and>
   getSliderMappingKeyByIndex threeSliders (currentSliderIndex onMaster)
     = (currentSliderName onMaster, None) \<and>
   mapIndex (SliderMappings (Config threeSliders)) (currentSliderName onMaster) = Some masterMapping \<and>
   volumesInRange (fst (snd (handleLines [0]
      [[CHR ''r'', CHR 0x0A], [CHR ''r'', CHR 0x0A], [CHR ''l'', CHR 0x0A]] (onMaster, threeSliders)))) \<and>
   0 \<le> wantedValue (fst (handleLines [0]
      [[CHR ''r'', CHR 0x0A], [CHR ''r'', CHR 0x0A], [CHR ''l'', CHR 0x0A]] (onMaster, threeSliders))) \<and>
   wantedValue (fst (handleLines [0]
      [[CHR ''r'', CHR 0x0A], [CHR ''r'', CHR 0x0A], [CHR ''l'', CHR 0x0A]] (onMaster, threeSliders))) \<le> 1 \<and>
   getSliderMappingByKey (fst (snd (handleLine [0] [CHR ''l'', CHR 0x0A] (onMaster, threeSliders))))
       ''master''
     = (masterMapping\<lparr>Volume := f32 (49 / 100)\<rparr>, None) \<and>
   getSliderMappingByKey (fst (snd (handleLine [0] [CHR ''r'', CHR 0x0A] (onMaster, threeSliders))))
       ''master''
     = (masterMapping\<lparr>Volume := f32 (51 / 100)\<rparr>, None)"
proof -
  let ?lines = "[[CHR ''r'', CHR 0x0A], [CHR ''r'', CHR 0x0A], [CHR ''l'', CHR 0x0A]]"
  let ?R = "handleLines [0] ?lines (onMaster, threeSliders)"
  have held: "\<not> isButtonHeld onMaster"
    by (simp add: onMaster_def initialGlobals_def)
  have toks: "set ?lines \<subseteq> {[CHR ''l'', CHR 0x0A], [CHR ''r'', CHR 0x0A]}"
    by simp
  have res: "?R = (fst ?R, fst (snd ?R), fst (snd (snd ?R)), snd (snd (snd ?R)))"
    by simp
  have name: "getSliderMappingKeyByIndex threeSliders (currentSliderIndex onMaster)
      = (currentSliderName onMaster, None)"
    by (simp add: model_defs scenario_defs)
  have stored: "mapIndex (SliderMappings (Config threeSliders)) (currentSliderName onMaster)
      = Some masterMapping"
    by (simp add: model_defs scenario_defs)
  have one: "[0::nat] \<noteq> []" by simp
  have master: "currentSliderName onMaster = ''master''"
    by (simp add: onMaster_def)
  have down: "max 0 (f32 (Volume masterMapping - f32 (1 / 100))) = f32 (49 / 100)"
    by (simp add: masterMapping_def f32_values)
  have up: "min 1 (f32 (Volume masterMapping + f32 (1 / 100))) = f32 (51 / 100)"
    by (simp add: masterMapping_def f32_values)
  note inv = volume_range_invariant [OF held, where cm = threeSliders and lines = ?lines
      and consumers = "[0]" and ?g1.0 = "fst ?R" and ?cm1.0 = "fst (snd ?R)"
      and tr = "fst (snd (snd ?R))" and p = "snd (snd (snd ?R))" and stored = masterMapping]
  from inv volumesInRange_threeSliders toks res
  have range: "volumesInRange (fst (snd ?R))" "0 \<le> wantedValue (fst ?R)" "wantedValue (fst ?R) \<le> 1"
    by simp_all
  from inv name stored one
  have "getSliderMappingByKey (fst (snd (handleLine [0] [CHR ''l'', CHR 0x0A] (onMaster, threeSliders))))
          (currentSliderName onMaster)
        = (masterMapping\<lparr>Volume := max 0 (f32 (Volume masterMapping - f32 (1 / 100)))\<rparr>, None)"
    and "getSliderMappingByKey (fst (snd (handleLine [0] [CHR ''r'', CHR 0x0A] (onMaster, threeSliders))))
          (currentSliderName onMaster)
        = (masterMapping\<lparr>Volume := min 1 (f32 (Volume masterMapping + f32 (1 / 100)))\<rparr>, None)"
    by blast+
  then have turns:
    "getSliderMappingByKey (fst (snd (handleLine [0] [CHR ''l'', CHR 0x0A] (onMaster, threeSliders))))
        ''master'' = (masterMapping\<lparr>Volume := f32 (49 / 100)\<rparr>, None)"
    "getSliderMappingByKey (fst (snd (handleLine [0] [CHR ''r'', CHR 0x0A] (onMaster, threeSliders))))
        ''master'' = (masterMapping\<lparr>Volume := f32 (51 / 100)\<rparr>, None)"
    by (simp_all only: master down up)
  show ?thesis
    using held volumesInRange_threeSliders name stored range turns by blast
qed

subsection \<open>The order of sending and writing back\<close>

text \<open>
  Claim C3 expects one write-back per event, before any consumer is sent the event and
  also when there is no consumer. On \<^verbatim>\<open>master\<close> at 0.5 an \<^verbatim>\<open>r\<close> yields an event with
  0.51; with no consumer nothing is written back and the manager is unchanged (not
  marked modified); with two consumers the write-back follows each send, twice.
\<close>

theorem writeback_follows_each_send:
  "moveEvents (switchLine ''r'' onMaster threeSliders) threeSliders
     = [\<lparr>SliderID = ''master'', PercentValue = f32 (51 / 100)\<rparr>] \<and>
   handleLine [] [CHR ''r'', CHR 0x0A] (onMaster, threeSliders) =
     (onMaster\<lparr>wantedValue := f32 (51 / 100), needToUpdate := True\<rparr>, threeSliders, [], None) \<and>
   fst (snd (snd (handleLine [0, 1] [CHR ''r'', CHR 0x0A] (onMaster, threeSliders)))) =
     [Sent 0 \<lparr>SliderID = ''master'', PercentValue = f32 (51 / 100)\<rparr>,
      Updated ''master'' (masterMapping\<lparr>Volume := f32 (51 / 100)\<rparr>),
      Sent 1 \<lparr>SliderID = ''master'', PercentValue = f32 (51 / 100)\<rparr>,
      Updated ''master'' (masterMapping\<lparr>Volume := f32 (51 / 100)\<rparr>)]"
  by (simp add: model_defs scenario_defs f32_values Let_def fun_upd_twist)


subsection \<open>Load\<close>

lemma Load_NotExist:
  "Load NotExist Decode rangeKeys cm =
     (Some (ErrConfigNotExist (configFilePath cm)), cm,
      [Notify ''Can't find configuration!''
         (configFilePath cm @ '' must be in the directory. Please re-launch'')])"
  by (simp add: Load_def)

lemma Load_OpenFails: "Load OpenFails Decode rangeKeys cm = (Some ErrOpenConfig, cm, [])"
  by (simp add: Load_def)

lemma Load_decode_fails:
  "snd (Decode True content defaultConfig) \<Longrightarrow>
   Load (Opened content) Decode rangeKeys cm =
     (Some ErrDecode, cm\<lparr>Config := fst (Decode True content defaultConfig)\<rparr>, [])"
  by (simp add: Load_def Let_def case_prod_beta)

lemma Load_decodes:
  "\<not> snd (Decode True content defaultConfig) \<Longrightarrow>
   Load (Opened content) Decode rangeKeys cm =
     (None,
      cm\<lparr>Config := fst (Decode True content defaultConfig),
         orderedSliderKeys :=
           (case SliderMappings (fst (Decode True content defaultConfig)) of
              None \<Rightarrow> [] | Some m \<Rightarrow> rangeKeys m)\<rparr>,
      [])"
  by (simp add: Load_def Let_def case_prod_beta)

text \<open>A \<^verbatim>\<open>Load\<close> that cannot open the file leaves the manager as it was.\<close>

theorem Load_open_failure_unchanged:
  "fst (snd (Load NotExist Decode rangeKeys cm)) = cm \<and>
   fst (snd (Load OpenFails Decode rangeKeys cm)) = cm"
  by (simp add: Load_NotExist Load_OpenFails)

text \<open>Once the file is open, the \<^verbatim>\<open>Config\<close> afterwards is what the decoder made of the
  default \<^verbatim>\<open>Config\<close>, whether it succeeded or not: nothing of the old one is merged in.\<close>

theorem Load_replaces_Config_wholesale:
  "Config (fst (snd (Load (Opened content) Decode rangeKeys cm))) = fst (Decode True content defaultConfig)"
  by (cases "snd (Decode True content defaultConfig)") (simp_all add: Load_decode_fails Load_decodes)

text \<open>
  Claim C1 expects a failed \<^verbatim>\<open>Load\<close> to leave the \<^verbatim>\<open>Config\<close> as it was. When the decoder
  reports an error, \<^verbatim>\<open>Load\<close> has already replaced \<^verbatim>\<open>cm.Config\<close> by the freshly allocated
  default \<^verbatim>\<open>Config\<close> the decoder wrote into, and returns with the old key sequence.
\<close>

theorem Load_decode_failure_replaces_Config:
  assumes "snd (Decode True content defaultConfig)"
  shows "Load (Opened content) Decode rangeKeys cm =
           (Some ErrDecode, cm\<lparr>Config := fst (Decode True content defaultConfig)\<rparr>, [])"
  using assms by (rule Load_decode_fails)

text \<open>A decoder that stops at a syntax error before writing anything: the three sliders
  are gone, their names are still in the key sequence.\<close>

theorem Load_decode_failure_replaces_Config_witness:
  "Load (Opened ''slider_mappings: ['') (\<lambda>known content target. (target, True)) (\<lambda>m. []) threeSliders =
     (Some ErrDecode, threeSliders\<lparr>Config := defaultConfig\<rparr>, []) \<and>
   Config (threeSliders\<lparr>Config := defaultConfig\<rparr>) \<noteq> Config threeSliders \<and>
   orderedSliderKeys (threeSliders\<lparr>Config := defaultConfig\<rparr>) = [''master'', ''game'', ''chat'']"
proof -
  have differ: "SliderMappings defaultConfig \<noteq> SliderMappings (Config threeSliders)"
    by (simp add: defaultConfig_def threeSliders_def)
  then have "defaultConfig \<noteq> Config threeSliders" by auto
  then show ?thesis
    using Load_decode_failure_replaces_Config
      [of "\<lambda>known content target. (target, True)" "''slider_mappings: [''" "\<lambda>m. []" threeSliders]
    by (simp add: threeSliders_def)
qed

text \<open>
  Claim C8. \<^verbatim>\<open>Load\<close> returns the not-found error, and notifies, exactly when the file
  does not exist. It returns the decode error exactly when the file opened and the
  decoder, run with \<^verbatim>\<open>KnownFields(true)\<close> on the default \<^verbatim>\<open>Config\<close>, reported an error;
  so it does for every content that is malformed or has an unknown key, given that
  the decoder rejects such content.
\<close>

theorem Load_failure_taxonomy:
  assumes "rejects Decode malformed" and "rejects Decode hasUnknownKey"
  shows
    "(fst (Load file Decode rangeKeys cm) = Some (ErrConfigNotExist (configFilePath cm))
        \<longleftrightarrow> file = NotExist) \<and>
     (snd (snd (Load file Decode rangeKeys cm)) \<noteq> [] \<longleftrightarrow> file = NotExist) \<and>
     (fst (Load file Decode rangeKeys cm) = Some ErrDecode
        \<longleftrightarrow> (\<exists>content. file = Opened content \<and> snd (Decode True content defaultConfig))) \<and>
     (malformed content \<or> hasUnknownKey content
        \<longrightarrow> fst (Load (Opened content) Decode rangeKeys cm) = Some ErrDecode)"
proof -
  have "snd (Decode True content defaultConfig)" if "malformed content \<or> hasUnknownKey content"
    using that assms by (auto simp: rejects_def)
  then have bad: "malformed content \<or> hasUnknownKey content
        \<longrightarrow> fst (Load (Opened content) Decode rangeKeys cm) = Some ErrDecode"
    by (auto simp: Load_decode_fails)
  show ?thesis
  proof (cases "file")
    case NotExist
    with bad show ?thesis by (simp add: Load_NotExist)
  next
    case OpenFails
    with bad show ?thesis by (simp add: Load_OpenFails)
  next
    case (Opened c)
    show ?thesis
    proof (cases "snd (Decode True c defaultConfig)")
      case True
      with Opened bad show ?thesis by (simp add: Load_decode_fails)
    next
      case False
      with Opened bad show ?thesis by (simp add: Load_decodes)
    qed
  qed
qed

text \<open>A decoder over the list of a document's top-level keys: an empty document is
  malformed, \<^verbatim>\<open>invert_slider\<close> is an unknown key.\<close>

theorem Load_failure_taxonomy_witness:
  "rejects (\<lambda>known content target. (target, content = [] \<or> known \<and> \<not> set content \<subseteq> set topLevelKeys))
      (\<lambda>content. content = []) \<and>
   rejects (\<lambda>known content target. (target, content = [] \<or> known \<and> \<not> set content \<subseteq> set topLevelKeys))
      (\<lambda>content. \<not> set content \<subseteq> set topLevelKeys) \<and>
   fst (Load (Opened [''slider_mappings'', ''invert_slider''])
      (\<lambda>known content target. (target, content = [] \<or> known \<and> \<not> set content \<subseteq> set topLevelKeys))
      (\<lambda>m. []) threeSliders) = Some ErrDecode \<and>
   fst (Load NotExist
      (\<lambda>known content target. (target, content = [] \<or> known \<and> \<not> set content \<subseteq> set topLevelKeys))
      (\<lambda>m. []) threeSliders) = Some (ErrConfigNotExist ''config.yaml'') \<and>
   snd (snd (Load NotExist
      (\<lambda>known content target. (target, content = [] \<or> known \<and> \<not> set content \<subseteq> set topLevelKeys))
      (\<lambda>m. []) threeSliders)) \<noteq> []"
proof -
  let ?Decode = "\<lambda>known content (target :: Config).
      (target, content = [] \<or> known \<and> \<not> set content \<subseteq> set topLevelKeys)"
  have r1: "rejects ?Decode (\<lambda>content. content = [])"
    by (simp add: rejects_def)
  have r2: "rejects ?Decode (\<lambda>content. \<not> set content \<subseteq> set topLevelKeys)"
    by (simp add: rejects_def)
  have typo: "\<not> set [''slider_mappings'', ''invert_slider''] \<subseteq> set topLevelKeys"
    by (simp add: topLevelKeys_def)
  show ?thesis
    using Load_failure_taxonomy [OF r1 r2, of NotExist "\<lambda>m. []" threeSliders "[''slider_mappings'', ''invert_slider'']"]
      Load_failure_taxonomy [OF r1 r2, of "Opened [''slider_mappings'', ''invert_slider'']" "\<lambda>m. []" threeSliders
        "[''slider_mappings'', ''invert_slider'']"]
      r1 r2 typo
    by (simp add: threeSliders_def)
qed


subsection \<open>The key sequence and the mapping\<close>

lemma keySetsAgree_threeSliders: "keySetsAgree threeSliders"
  by (auto simp: keySetsAgree_def threeSliders_def)

lemma aux_not_listed:
  "\<not> keySetsAgree (threeSliders\<lparr>Config := (Config threeSliders)\<lparr>SliderMappings :=
            Some [''master'' \<mapsto> masterMapping, ''game'' \<mapsto> gameMapping, ''chat'' \<mapsto> chatMapping,
                  ''aux'' \<mapsto> zeroSliderMapping]\<rparr>,
          configModified := True\<rparr>)"
proof
  assume "keySetsAgree (threeSliders\<lparr>Config := (Config threeSliders)\<lparr>SliderMappings :=
            Some [''master'' \<mapsto> masterMapping, ''game'' \<mapsto> gameMapping, ''chat'' \<mapsto> chatMapping,
                  ''aux'' \<mapsto> zeroSliderMapping]\<rparr>,
          configModified := True\<rparr>)"
  then have "set [''master'', ''game'', ''chat''] =
      dom [''master'' \<mapsto> masterMapping, ''game'' \<mapsto> gameMapping, ''chat'' \<mapsto> chatMapping,
           ''aux'' \<mapsto> zeroSliderMapping]"
    by (simp add: keySetsAgree_def threeSliders_def)
  moreover have "''aux'' \<in> dom [''master'' \<mapsto> masterMapping, ''game'' \<mapsto> gameMapping,
      ''chat'' \<mapsto> chatMapping, ''aux'' \<mapsto> zeroSliderMapping]"
    by simp
  ultimately have "''aux'' \<in> set [''master'', ''game'', ''chat'']"
    by (rule ssubst)
  then show False by simp
qed

text \<open>
  Claim C2 as stated has \<^verbatim>\<open>UpdateSliderMappingByKey\<close> keep the two key sets equal also
  for a key that is not in the mapping. The update stores the key in the mapping and
  leaves the key sequence alone: after \<^verbatim>\<open>aux\<close> is stored, the sets differ.
\<close>

theorem UpdateSliderMappingByKey_new_key_counterexample:
  "keySetsAgree threeSliders \<and>
   UpdateSliderMappingByKey threeSliders ''aux'' zeroSliderMapping =
     Inr (threeSliders\<lparr>Config := (Config threeSliders)\<lparr>SliderMappings :=
            Some [''master'' \<mapsto> masterMapping, ''game'' \<mapsto> gameMapping, ''chat'' \<mapsto> chatMapping,
                  ''aux'' \<mapsto> zeroSliderMapping]\<rparr>,
          configModified := True\<rparr>) \<and>
   \<not> keySetsAgree (threeSliders\<lparr>Config := (Config threeSliders)\<lparr>SliderMappings :=
            Some [''master'' \<mapsto> masterMapping, ''game'' \<mapsto> gameMapping, ''chat'' \<mapsto> chatMapping,
                  ''aux'' \<mapsto> zeroSliderMapping]\<rparr>,
          configModified := True\<rparr>)"
proof (intro conjI)
  show "keySetsAgree threeSliders"
    by (rule keySetsAgree_threeSliders)
  show "UpdateSliderMappingByKey threeSliders ''aux'' zeroSliderMapping =
     Inr (threeSliders\<lparr>Config := (Config threeSliders)\<lparr>SliderMappings :=
            Some [''master'' \<mapsto> masterMapping, ''game'' \<mapsto> gameMapping, ''chat'' \<mapsto> chatMapping,
                  ''aux'' \<mapsto> zeroSliderMapping]\<rparr>,
          configModified := True\<rparr>)"
    by (simp add: UpdateSliderMappingByKey_def mapAssign_def threeSliders_def)
  show "\<not> keySetsAgree (threeSliders\<lparr>Config := (Config threeSliders)\<lparr>SliderMappings :=
            Some [''master'' \<mapsto> masterMapping, ''game'' \<mapsto> gameMapping, ''chat'' \<mapsto> chatMapping,
                  ''aux'' \<mapsto> zeroSliderMapping]\<rparr>,
          configModified := True\<rparr>)"
    by (rule aux_not_listed)
qed

lemma keySetsAgree_Load:
  assumes "Load file Decode rangeKeys cm = (None, cm1, ns)"
    and "\<forall>m. SliderMappings (Config cm1) = Some m \<longrightarrow> set (rangeKeys m) = dom m"
  shows "keySetsAgree cm1"
proof -
  from assms(1) obtain content where opened: "file = Opened content"
    by (cases "file") (auto simp: Load_NotExist Load_OpenFails)
  with assms(1) have ok: "\<not> snd (Decode True content defaultConfig)"
    by (auto simp: Load_decode_fails)
  from Load_decodes [of Decode content rangeKeys cm] ok assms(1) opened
  have cm1: "cm1 = cm\<lparr>Config := fst (Decode True content defaultConfig),
         orderedSliderKeys :=
           (case SliderMappings (fst (Decode True content defaultConfig)) of
              None \<Rightarrow> [] | Some m \<Rightarrow> rangeKeys m)\<rparr>"
    by simp
  show ?thesis
    using assms(2) by (auto simp: cm1 keySetsAgree_def split: option.splits)
qed

lemma keySetsAgree_UpdateByKey:
  assumes "keySetsAgree cm" and "mapIndex (SliderMappings (Config cm)) key \<noteq> None"
    and "UpdateSliderMappingByKey cm key mapping = Inr cm1"
  shows "keySetsAgree cm1"
  using assms
  by (auto simp: keySetsAgree_def UpdateSliderMappingByKey_def mapAssign_def mapIndex_def
      split: option.splits if_splits)

lemma keySetsAgree_UpdateByIndex:
  assumes "keySetsAgree cm" and "UpdateSliderMappingByIndex cm index mapping = Inr cm1"
  shows "keySetsAgree cm1"
proof -
  from assms(2) have range: "0 \<le> index" "index < int (length (orderedSliderKeys cm))"
    by (auto simp: UpdateSliderMappingByIndex_def split: if_splits)
  then have "orderedSliderKeys cm ! nat index \<in> set (orderedSliderKeys cm)"
    by simp
  with assms range show ?thesis
    by (auto simp: keySetsAgree_def UpdateSliderMappingByIndex_def mapAssign_def
        split: option.splits if_splits)
qed

lemma keySetsAgree_SaveConfig: "keySetsAgree (snd (SaveConfig io cm)) = keySetsAgree cm"
  by (cases io) (simp_all add: SaveConfig_def keySetsAgree_def)

text \<open>
  Claim C2, amended. After a successful \<^verbatim>\<open>Load\<close> the names in the key sequence are the
  keys of the decoded mapping (the \<^verbatim>\<open>range\<close> loop visits exactly the keys of the map).
  The equality is kept by \<^verbatim>\<open>UpdateSliderMappingByKey\<close> for a key that is in the mapping,
  by \<^verbatim>\<open>UpdateSliderMappingByIndex\<close> whenever it returns, and by \<^verbatim>\<open>SaveConfig\<close>.
\<close>

theorem keySetsAgree_established_and_kept:
  "(Load file Decode rangeKeys cm = (None, cm1, ns) \<longrightarrow>
      (\<forall>m. SliderMappings (Config cm1) = Some m \<longrightarrow> set (rangeKeys m) = dom m) \<longrightarrow>
      keySetsAgree cm1) \<and>
   (keySetsAgree cm \<longrightarrow> mapIndex (SliderMappings (Config cm)) key \<noteq> None \<longrightarrow>
      UpdateSliderMappingByKey cm key mapping = Inr cm2 \<longrightarrow> keySetsAgree cm2) \<and>
   (keySetsAgree cm \<longrightarrow> UpdateSliderMappingByIndex cm index mapping = Inr cm3 \<longrightarrow>
      keySetsAgree cm3) \<and>
   (keySetsAgree cm \<longrightarrow> keySetsAgree (snd (SaveConfig io cm)))"
proof (intro conjI impI)
  show "keySetsAgree cm1"
    if "Load file Decode rangeKeys cm = (None, cm1, ns)"
      and "\<forall>m. SliderMappings (Config cm1) = Some m \<longrightarrow> set (rangeKeys m) = dom m"
    using that by (rule keySetsAgree_Load)
  show "keySetsAgree cm2"
    if "keySetsAgree cm" and "mapIndex (SliderMappings (Config cm)) key \<noteq> None"
      and "UpdateSliderMappingByKey cm key mapping = Inr cm2"
    using that by (rule keySetsAgree_UpdateByKey)
  show "keySetsAgree cm3"
    if "keySetsAgree cm" and "UpdateSliderMappingByIndex cm index mapping = Inr cm3"
    using that by (rule keySetsAgree_UpdateByIndex)
  show "keySetsAgree (snd (SaveConfig io cm))" if "keySetsAgree cm"
    using that by (simp add: keySetsAgree_SaveConfig)
qed


text \<open>A load of two sliders visited in the order \<^verbatim>\<open>game\<close>, \<^verbatim>\<open>master\<close>, and updates of
  \<^verbatim>\<open>game\<close> and of index 2 among the three sliders.\<close>

theorem keySetsAgree_established_and_kept_witness:
  "fst (Load (Opened ''slider_mappings: {master: {}, game: {}}'')
         (\<lambda>known content target.
            (target\<lparr>SliderMappings := Some [''master'' \<mapsto> masterMapping, ''game'' \<mapsto> gameMapping]\<rparr>, False))
         (\<lambda>m. [''game'', ''master'']) threeSliders) = None \<and>
   keySetsAgree (fst (snd (Load (Opened ''slider_mappings: {master: {}, game: {}}'')
         (\<lambda>known content target.
            (target\<lparr>SliderMappings := Some [''master'' \<mapsto> masterMapping, ''game'' \<mapsto> gameMapping]\<rparr>, False))
         (\<lambda>m. [''game'', ''master'']) threeSliders))) \<and>
   keySetsAgree threeSliders \<and>
   mapIndex (SliderMappings (Config threeSliders)) ''game'' \<noteq> None \<and>
   \<not> isl (UpdateSliderMappingByKey threeSliders ''game'' zeroSliderMapping) \<and>
   keySetsAgree (projr (UpdateSliderMappingByKey threeSliders ''game'' zeroSliderMapping)) \<and>
   \<not> isl (UpdateSliderMappingByIndex threeSliders 2 zeroSliderMapping) \<and>
   keySetsAgree (projr (UpdateSliderMappingByIndex threeSliders 2 zeroSliderMapping)) \<and>
   keySetsAgree (snd (SaveConfig Written threeSliders))"
proof -
  let ?Decode = "\<lambda>(known :: bool) (content :: string) target.
      (target\<lparr>SliderMappings := Some [''master'' \<mapsto> masterMapping, ''game'' \<mapsto> gameMapping]\<rparr>, False)"
  let ?L = "Load (Opened ''slider_mappings: {master: {}, game: {}}'') ?Decode
      (\<lambda>m. [''game'', ''master'']) threeSliders"
  have loaded: "?L = (None, fst (snd ?L), snd (snd ?L))"
    by (simp add: Load_decodes)
  have ranged: "\<forall>m. SliderMappings (Config (fst (snd ?L))) = Some m \<longrightarrow>
      set ((\<lambda>m. [''game'', ''master'']) m) = dom m"
    by (auto simp: Load_decodes)
  have game: "mapIndex (SliderMappings (Config threeSliders)) ''game'' \<noteq> None"
    by (simp add: mapIndex_def threeSliders_def)
  have byKey: "UpdateSliderMappingByKey threeSliders ''game'' zeroSliderMapping
      = Inr (projr (UpdateSliderMappingByKey threeSliders ''game'' zeroSliderMapping))"
    by (simp add: UpdateSliderMappingByKey_def mapAssign_def threeSliders_def)
  have byIndex: "UpdateSliderMappingByIndex threeSliders 2 zeroSliderMapping
      = Inr (projr (UpdateSliderMappingByIndex threeSliders 2 zeroSliderMapping))"
    by (simp add: UpdateSliderMappingByIndex_def mapAssign_def threeSliders_def)
  note kept = keySetsAgree_established_and_kept
      [of "Opened ''slider_mappings: {master: {}, game: {}}''" ?Decode "\<lambda>m. [''game'', ''master'']"
        threeSliders "fst (snd ?L)" "snd (snd ?L)" "''game''" zeroSliderMapping
        "projr (UpdateSliderMappingByKey threeSliders ''game'' zeroSliderMapping)"
        2 "projr (UpdateSliderMappingByIndex threeSliders 2 zeroSliderMapping)" Written]
  have l: "keySetsAgree (fst (snd ?L))"
    using kept loaded ranged by blast
  have k: "keySetsAgree (projr (UpdateSliderMappingByKey threeSliders ''game'' zeroSliderMapping))"
    using kept keySetsAgree_threeSliders game byKey by blast
  have i: "keySetsAgree (projr (UpdateSliderMappingByIndex threeSliders 2 zeroSliderMapping))"
    using kept keySetsAgree_threeSliders byIndex by blast
  have s: "keySetsAgree (snd (SaveConfig Written threeSliders))"
    using kept keySetsAgree_threeSliders by blast
  have ok: "fst ?L = None"
    using loaded by (metis fst_conv)
  have "\<not> isl (UpdateSliderMappingByKey threeSliders ''game'' zeroSliderMapping)"
    using byKey by (metis sum.disc(2))
  moreover have "\<not> isl (UpdateSliderMappingByIndex threeSliders 2 zeroSliderMapping)"
    using byIndex by (metis sum.disc(2))
  ultimately show ?thesis
    using l k i s ok game keySetsAgree_threeSliders by blast
qed

subsection \<open>Malformed lines\<close>

text \<open>
  Claim C9. A line that is not one of the letters \<^verbatim>\<open>l\<close>, \<^verbatim>\<open>r\<close>, \<^verbatim>\<open>u\<close>, \<^verbatim>\<open>d\<close> followed by
  one line feed is dropped: \<^verbatim>\<open>handleLine\<close> returns the variables (index, name, wanted
  value, button flag, update flag) and the manager as they were, sends no event and
  writes nothing back.
\<close>

theorem handleLine_malformed_inert:
  assumes "line \<noteq> [CHR ''l'', CHR 0x0A]" and "line \<noteq> [CHR ''r'', CHR 0x0A]"
    and "line \<noteq> [CHR ''u'', CHR 0x0A]" and "line \<noteq> [CHR ''d'', CHR 0x0A]"
  shows "handleLine consumers line (g, cm) = (g, cm, [], None)"
  using assms by (simp add: handleLine_def expectedLinePattern_iff)

text \<open>The line \<^verbatim>\<open>xq\<close> and a token ended by carriage return and line feed.\<close>

theorem handleLine_malformed_inert_witness:
  "handleLine [0, 1] [CHR ''x'', CHR ''q'', CHR 0x0A] (onMaster, threeSliders)
     = (onMaster, threeSliders, [], None) \<and>
   handleLine [0, 1] [CHR ''l'', CHR 0x0D, CHR 0x0A] (onMaster, threeSliders)
     = (onMaster, threeSliders, [], None)"
  using handleLine_malformed_inert [of "[CHR ''x'', CHR ''q'', CHR 0x0A]" "[0, 1]" onMaster threeSliders]
    handleLine_malformed_inert [of "[CHR ''l'', CHR 0x0D, CHR 0x0A]" "[0, 1]" onMaster threeSliders]
  by simp

end
